theory Spec2Isabelle
  imports Complex_Main
begin

section \<open>Numbers\<close>

text \<open>
  The services compute with JavaScript numbers. They are modelled as real numbers, so
  rounding to the nearest double, overflow and underflow are not represented. What is
  kept are the special values of IEEE arithmetic: a number that the program computes, or
  divides by, is a \<open>jsnum\<close>, either a finite real or one of \<open>-0\<close>, \<open>Infinity\<close>,
  \<open>-Infinity\<close>, \<open>NaN\<close>, with the IEEE rules for them. \<open>Fin 0\<close> is \<open>+0\<close> and \<open>NegZero\<close>
  is \<open>-0\<close>. Numbers that the program only reads and compares with (thresholds, the
  confidences of incoming call signals and of the pattern table, weights) are finite and
  have type \<open>real\<close>; millisecond timestamps have type \<open>int\<close>.
\<close>

datatype jsnum = Fin real | NegZero | PosInf | NegInf | NaN

fun js_add :: "jsnum \<Rightarrow> jsnum \<Rightarrow> jsnum" where
  "js_add NaN _ = NaN"
| "js_add _ NaN = NaN"
| "js_add PosInf NegInf = NaN"
| "js_add NegInf PosInf = NaN"
| "js_add PosInf _ = PosInf"
| "js_add _ PosInf = PosInf"
| "js_add NegInf _ = NegInf"
| "js_add _ NegInf = NegInf"
| "js_add NegZero NegZero = NegZero"
| "js_add NegZero (Fin b) = Fin b"
| "js_add (Fin a) NegZero = Fin a"
| "js_add (Fin a) (Fin b) = Fin (a + b)"

text \<open>
  A product or a quotient that is zero has the sign of its operands: it is \<open>-0\<close> when
  exactly one of them is negative.
\<close>

fun js_mul :: "jsnum \<Rightarrow> jsnum \<Rightarrow> jsnum" where
  "js_mul NaN _ = NaN"
| "js_mul _ NaN = NaN"
| "js_mul (Fin a) (Fin b) =
     (if a * b \<noteq> 0 then Fin (a * b) else if a < 0 \<or> b < 0 then NegZero else Fin 0)"
| "js_mul (Fin a) NegZero = (if a < 0 then Fin 0 else NegZero)"
| "js_mul NegZero (Fin b) = (if b < 0 then Fin 0 else NegZero)"
| "js_mul NegZero NegZero = Fin 0"
| "js_mul (Fin a) PosInf = (if 0 < a then PosInf else if a < 0 then NegInf else NaN)"
| "js_mul (Fin a) NegInf = (if 0 < a then NegInf else if a < 0 then PosInf else NaN)"
| "js_mul PosInf (Fin b) = (if 0 < b then PosInf else if b < 0 then NegInf else NaN)"
| "js_mul NegInf (Fin b) = (if 0 < b then NegInf else if b < 0 then PosInf else NaN)"
| "js_mul NegZero PosInf = NaN"
| "js_mul NegZero NegInf = NaN"
| "js_mul PosInf NegZero = NaN"
| "js_mul NegInf NegZero = NaN"
| "js_mul PosInf PosInf = PosInf"
| "js_mul PosInf NegInf = NegInf"
| "js_mul NegInf PosInf = NegInf"
| "js_mul NegInf NegInf = PosInf"

fun js_div :: "jsnum \<Rightarrow> jsnum \<Rightarrow> jsnum" where
  "js_div NaN _ = NaN"
| "js_div _ NaN = NaN"
| "js_div (Fin a) (Fin b) =
     (if b = 0 then (if 0 < a then PosInf else if a < 0 then NegInf else NaN)
      else if a = 0 \<and> b < 0 then NegZero
      else Fin (a / b))"
| "js_div (Fin a) NegZero = (if 0 < a then NegInf else if a < 0 then PosInf else NaN)"
| "js_div NegZero (Fin b) = (if b = 0 then NaN else if b < 0 then Fin 0 else NegZero)"
| "js_div NegZero NegZero = NaN"
| "js_div (Fin a) PosInf = (if a < 0 then NegZero else Fin 0)"
| "js_div (Fin a) NegInf = (if a < 0 then Fin 0 else NegZero)"
| "js_div NegZero PosInf = NegZero"
| "js_div NegZero NegInf = Fin 0"
| "js_div PosInf (Fin b) = (if b < 0 then NegInf else PosInf)"
| "js_div PosInf NegZero = NegInf"
| "js_div NegInf (Fin b) = (if b < 0 then PosInf else NegInf)"
| "js_div NegInf NegZero = PosInf"
| "js_div PosInf PosInf = NaN"
| "js_div PosInf NegInf = NaN"
| "js_div NegInf PosInf = NaN"
| "js_div NegInf NegInf = NaN"

text \<open>
  \<open>Math.min\<close> of two numbers (\<open>-0\<close> is below \<open>+0\<close>), \<open>Math.round\<close> (halves go up, and a
  negative number that rounds to zero gives \<open>-0\<close>) and \<open>Math.pow(0.5, x)\<close>.
\<close>

fun js_min :: "jsnum \<Rightarrow> jsnum \<Rightarrow> jsnum" where
  "js_min NaN _ = NaN"
| "js_min _ NaN = NaN"
| "js_min NegInf _ = NegInf"
| "js_min _ NegInf = NegInf"
| "js_min PosInf b = b"
| "js_min a PosInf = a"
| "js_min NegZero NegZero = NegZero"
| "js_min NegZero (Fin b) = (if b < 0 then Fin b else NegZero)"
| "js_min (Fin a) NegZero = (if a < 0 then Fin a else NegZero)"
| "js_min (Fin a) (Fin b) = Fin (min a b)"


fun pow_half :: "jsnum \<Rightarrow> jsnum" where
  "pow_half (Fin x) = Fin ((1 / 2) powr x)"
| "pow_half NegZero = Fin 1"
| "pow_half PosInf = Fin 0"
| "pow_half NegInf = PosInf"
| "pow_half NaN = NaN"

text \<open>The comparison \<open>a >= t\<close> of a computed number with a finite one.\<close>

fun js_ge :: "jsnum \<Rightarrow> real \<Rightarrow> bool" where
  "js_ge (Fin a) t = (t \<le> a)"
| "js_ge NegZero t = (t \<le> 0)"
| "js_ge PosInf t = True"
| "js_ge NegInf t = False"
| "js_ge NaN t = False"

text \<open>
  For the statements about computed numbers: the comparison \<open>a <= b\<close> of two of them,
  \<open>Number.isFinite\<close>, the real value of a finite number, and the sum of a list as
  \<open>reduce((sum, x) => sum + x, 0)\<close> computes it.
\<close>

fun js_finite :: "jsnum \<Rightarrow> bool" where
  "js_finite (Fin a) = True"
| "js_finite NegZero = True"
| "js_finite _ = False"

fun finVal :: "jsnum \<Rightarrow> real" where
  "finVal (Fin c) = c"
| "finVal _ = 0"

fun js_le :: "jsnum \<Rightarrow> jsnum \<Rightarrow> bool" where
  "js_le NaN _ = False"
| "js_le _ NaN = False"
| "js_le NegInf _ = True"
| "js_le _ PosInf = True"
| "js_le PosInf _ = False"
| "js_le _ NegInf = False"
| "js_le a b = (finVal a \<le> finVal b)"

definition js_sum :: "jsnum list \<Rightarrow> jsnum" where
  "js_sum xs = foldl js_add (Fin 0) xs"

section \<open>Stage engine (stage-engine.service.ts)\<close>

subsection \<open>Types (crm-automation.ts)\<close>

datatype CallSignalType =
    LIVE_CONVERSATION | INTEREST_EXPRESSED | DEMO_SCHEDULED | PRICING_DISCUSSED
  | SEND_PRICING_REQUEST | OBJECTION_RAISED | OBJECTION_HANDLED
  | DECISION_MAKER_IDENTIFIED | NEXT_STEPS_DEFINED | NO_ANSWER | VOICEMAIL_LEFT
  | WRONG_NUMBER | GATEKEEPER | NOT_INTERESTED | COMPETITOR_MENTIONED
  | BUDGET_DISCUSSED | TIMELINE_DISCUSSED | FOLLOW_UP_REQUESTED

datatype OutreachStage =
    NEW | ATTEMPTED | WORKING | QUALIFIED | DEMO_SCHEDULED | PROPOSAL | NEGOTIATION
  | CLOSED_WON | CLOSED_LOST | NURTURE

datatype OutreachDisposition =
    NO_ANSWER | LEFT_VOICEMAIL | WRONG_NUMBER | GATEKEEPER_BLOCK | NOT_INTERESTED
  | CONNECTED | DEMO_SCHEDULED | MEETING_SCHEDULED | SENT_INFO | CALLBACK_SCHEDULED
  | FOLLOW_UP

datatype ActionKind = AUTO_UPDATE | FLAG_FOR_CONFIRMATION | NO_ACTION

datatype ConfidenceLevel = HIGH | MEDIUM | LOW

text \<open>
  Constructors that several enums share are written with their type
  (\<open>CallSignalType.DEMO_SCHEDULED\<close>, \<open>OutreachStage.DEMO_SCHEDULED\<close>), and so are record
  fields that several records share. The optional \<open>timestamp\<close> and \<open>metadata\<close> of a
  signal and the fields of the call data other than \<open>callId\<close> and \<open>signals\<close> are never
  read by the engine and are left out.
\<close>

record CallSignal =
  type :: CallSignalType
  confidence :: real
  evidence :: string

record ExtractedCallData =
  callId :: string
  signals :: "CallSignal list"

record StageEngineConfig =
  highConfidenceThreshold :: real
  mediumConfidenceThreshold :: real
  enableAutoUpdate :: bool
  enableFlagging :: bool
  signalWeights :: "CallSignalType \<Rightarrow> real option"

record RuleConditions =
  requiredSignals :: "CallSignalType list option"
  anySignals :: "CallSignalType list option"
  excludeSignals :: "CallSignalType list option"
  minConfidence :: "real option"

record RuleResult =
  stage :: OutreachStage
  disposition :: "OutreachDisposition option"
  flags :: "string list option"
  suggestedTasks :: "string list option"

record StageRule =
  conditions :: RuleConditions
  result :: RuleResult
  priority :: real

text \<open>
  The \<open>reasoning\<close> text of a mapping result and the \<open>reason\<close> text of an action decision
  are messages for the reader of the audit log, built with \<open>toFixed\<close>; they are not
  modelled.
\<close>

record StageMappingResult =
  newStage :: OutreachStage
  disposition :: "OutreachDisposition option"
  confidence :: jsnum
  flags :: "string list"
  requiresConfirmation :: bool
  suggestedTasks :: "string list"

record ActionDecision =
  action :: ActionKind
  confidenceLevel :: ConfidenceLevel
  confidence :: jsnum

subsection \<open>The tables\<close>



subsection \<open>Rule evaluation\<close>

text \<open>\<open>xs?.includes(t)\<close> on an optional array.\<close>

definition optIncludes :: "'a list option \<Rightarrow> 'a \<Rightarrow> bool" where
  "optIncludes xs t = (case xs of None \<Rightarrow> False | Some l \<Rightarrow> t \<in> set l)"

text \<open>
  The filter that \<open>evaluateRule\<close>, \<open>calculateConfidence\<close> and \<open>generateReasoning\<close> each
  write out: the signals whose type is in the required or in the any-of set.
\<close>

definition relevantSignals :: "RuleConditions \<Rightarrow> CallSignal list \<Rightarrow> CallSignal list" where
  "relevantSignals c sigs =
     filter (\<lambda>s. if optIncludes (requiredSignals c) (type s) then True
                 else if optIncludes (anySignals c) (type s) then True
                 else False) sigs"

definition evaluateRule :: "StageRule \<Rightarrow> CallSignal list \<Rightarrow> bool" where
  "evaluateRule rule sigs =
     (let signalTypes = set (map type sigs); c = conditions rule in
      if (case requiredSignals c of None \<Rightarrow> False
          | Some req \<Rightarrow> \<not> list_all (\<lambda>t. t \<in> signalTypes) req) then False
      else if (case anySignals c of None \<Rightarrow> False
          | Some anys \<Rightarrow> \<not> list_ex (\<lambda>t. t \<in> signalTypes) anys) then False
      else if (case excludeSignals c of None \<Rightarrow> False
          | Some excl \<Rightarrow> list_ex (\<lambda>t. t \<in> signalTypes) excl) then False
      else (case minConfidence c of
              None \<Rightarrow> True
            | Some m \<Rightarrow>
                (let rel = relevantSignals c sigs in
                 if 0 < length rel
                 then (let avgConfidence =
                             foldl (\<lambda>sum s. sum + CallSignal.confidence s) 0 rel
                               / real (length rel)
                       in if avgConfidence < m then False else True)
                 else True)))"

subsection \<open>Confidence and action decision\<close>




definition getActionDecision :: "StageEngineConfig \<Rightarrow> jsnum \<Rightarrow> ActionDecision" where
  "getActionDecision cfg c =
     (if js_ge c (highConfidenceThreshold cfg)
      then \<lparr>action = (if enableAutoUpdate cfg then AUTO_UPDATE else FLAG_FOR_CONFIRMATION),
            confidenceLevel = HIGH, ActionDecision.confidence = c\<rparr>
      else if js_ge c (mediumConfidenceThreshold cfg)
      then \<lparr>action = (if enableFlagging cfg then FLAG_FOR_CONFIRMATION else NO_ACTION),
            confidenceLevel = MEDIUM, ActionDecision.confidence = c\<rparr>
      else \<lparr>action = NO_ACTION, confidenceLevel = LOW, ActionDecision.confidence = c\<rparr>)"

subsection \<open>mapToStage\<close>







definition defaultStageEngineConfig :: StageEngineConfig where
  "defaultStageEngineConfig =
     \<lparr>highConfidenceThreshold = 8 / 10, mediumConfidenceThreshold = 5 / 10,
      enableAutoUpdate = True, enableFlagging = True, signalWeights = (\<lambda>t. None)\<rparr>"


section \<open>Stall detector (stall-detector.service.ts)\<close>

subsection \<open>Types (stall.ts)\<close>

datatype StallPhraseCategory =
    PRICING_REQUEST | APPROVAL_NEEDED | THINKING | TEAM_CHECK | DECISION_MAKER
  | CALLBACK_REQUEST | FOLLOWUP_PROMISE | INTERNAL_DISCUSSION

text \<open>
  A string is a list of characters, each standing for one UTF-16 code unit below 256;
  positions count code units, as in the source. The field \<open>context\<close> of a match is
  named \<open>context_text\<close>, and an \<open>id\<close> field carries the name of its record.
\<close>

record StallPhraseMatch =
  phrase :: string
  category :: StallPhraseCategory
  matchedText :: string
  confidence :: real
  position :: nat
  context_text :: string

datatype StallSignalSource = CALL_TRANSCRIPT | EMAIL | MEETING_NOTES | CRM_NOTES

record StallSignal =
  id_signal :: string
  dealId :: string
  accountId :: string
  accountName :: string
  source :: StallSignalSource
  sourceId :: string
  sourceTimestamp :: int
  phraseMatches :: "StallPhraseMatch list"
  rawContent :: string
  baseConfidence :: real
  timeDecayedConfidence :: jsnum
  aggregateStrength :: real
  detectedAt :: int
  processedAt :: "int option"

text \<open>
  The half-life is a number that the service divides by. It comes from the caller of the
  constructor (from \<open>parseInt\<close> of an environment variable in \<open>index.ts\<close>) and is not
  checked, so it is a \<open>jsnum\<close>: it may be zero of either sign or \<open>NaN\<close>.
\<close>

record StallDetectorConfig =
  timeDecayHalfLifeHours :: jsnum
  maxSignalAgeHours :: real
  criticalThreshold :: real
  highThreshold :: real
  mediumThreshold :: real
  alertWithinHours :: real
  minConfidenceForAlert :: real

definition DEFAULT_CONFIG :: StallDetectorConfig where
  "DEFAULT_CONFIG =
     \<lparr>timeDecayHalfLifeHours = Fin 48, maxSignalAgeHours = 168, criticalThreshold = 80,
      highThreshold = 60, mediumThreshold = 40, alertWithinHours = 24,
      minConfidenceForAlert = 5 / 10\<rparr>"

subsection \<open>Scoring\<close>

text \<open>
  A \<open>Date\<close> is its time value, an integer number of milliseconds; \<open>now\<close> is the value
  of \<open>Date.now()\<close> during the call. The difference of two dates in hours:
\<close>

definition hoursBetween :: "int \<Rightarrow> int \<Rightarrow> real" where
  "hoursBetween now t = real_of_int (now - t) / (1000 * 60 * 60)"

definition calculateTimeDecayedConfidence :: "StallDetectorConfig \<Rightarrow> int \<Rightarrow> real \<Rightarrow> int \<Rightarrow> jsnum" where
  "calculateTimeDecayedConfidence cfg now baseConf signalDate =
     (let hoursOld = hoursBetween now signalDate;
          decayFactor = pow_half (js_div (Fin hoursOld) (timeDecayHalfLifeHours cfg))
      in js_mul (Fin baseConf) decayFactor)"

definition calculateAggregateStrength :: "StallPhraseMatch list \<Rightarrow> real" where
  "calculateAggregateStrength matches =
     (case matches of
        [] \<Rightarrow> 0
      | m # ms \<Rightarrow>
          (let maxConfidence = foldl max (StallPhraseMatch.confidence m)
                                 (map StallPhraseMatch.confidence ms);
               countBonus = min (real (length matches) - 1) 3 * (5 / 10)
           in min 10 (maxConfidence * 8 + countBonus)))"

text \<open>
  \<open>signals.reduce((latest, s) => s.sourceTimestamp > latest.sourceTimestamp ? s : latest)\<close>
  starts from the first signal, which the guard on the length provides.
\<close>

definition latestOf :: "StallSignal \<Rightarrow> StallSignal list \<Rightarrow> StallSignal" where
  "latestOf s0 rest =
     foldl (\<lambda>latest s. if sourceTimestamp latest < sourceTimestamp s then s else latest) s0 rest"

definition calculateStallScore :: "int \<Rightarrow> StallSignal list \<Rightarrow> jsnum" where
  "calculateStallScore now sigs =
     (case sigs of
        [] \<Rightarrow> Fin 0
      | s0 # rest \<Rightarrow>
          (let totalScore =
                 foldl (\<lambda>sum signal. js_add sum (js_mul (timeDecayedConfidence signal) (Fin 30)))
                       (Fin 0) sigs;
               latestSignal = latestOf s0 rest;
               hoursSinceLatest = hoursBetween now (sourceTimestamp latestSignal);
               recencyBonus = (if hoursSinceLatest < 24 then 10
                               else if hoursSinceLatest < 48 then 5 else 0)
           in js_min (Fin 100) (js_add totalScore (Fin recencyBonus))))"

text \<open>The recency bonus as a function of the age in hours of the most recent signal.\<close>

definition recencyBonusFor :: "real \<Rightarrow> real" where
  "recencyBonusFor h = (if h < 24 then 10 else if h < 48 then 5 else 0)"

text \<open>A signal with a given identifier, decayed confidence and source date, for examples.\<close>

definition sampleSignal :: "string \<Rightarrow> jsnum \<Rightarrow> int \<Rightarrow> StallSignal" where
  "sampleSignal i c t =
     \<lparr>id_signal = i, dealId = ''deal-1'', accountId = ''acct-1'', accountName = ''Acme'',
      source = EMAIL, sourceId = ''mail-1'', sourceTimestamp = t, phraseMatches = [],
      rawContent = [], baseConfidence = 7 / 10, timeDecayedConfidence = c,
      aggregateStrength = 56 / 10, detectedAt = t, processedAt = None\<rparr>"

section \<open>Audit log (audit.service.ts)\<close>

datatype AuditAction =
    STAGE_CHANGE | DISPOSITION_SET | NOTE_ADDED | TASK_CREATED | FLAG_SET
  | CONFIRMATION_REQUIRED | ROLLBACK | ERROR

text \<open>
  The values an entry records (\<open>previousValue\<close>, \<open>newValue\<close>) have the type \<open>unknown\<close>
  in the source and are strings here, absent when \<open>None\<close>. The \<open>metadata\<close> of an entry
  is not modelled: rollback neither reads nor writes it.
\<close>

record AuditEntry =
  id_entry :: string
  timestamp :: int
  callId :: string
  prospectId :: "int option"
  action :: AuditAction
  previousValue :: "string option"
  newValue :: "string option"
  confidence :: "real option"
  automated :: bool
  confirmedBy :: "string option"
  rollbackOf :: "string option"

record AuditConfig =
  retentionDays :: real
  enableRollback :: bool
  logToFile :: bool
  logFilePath :: "string option"

record RollbackResult =
  success :: bool
  auditId :: string
  originalAuditId :: string
  message :: string
  previousValue :: "string option"
  restoredValue :: "string option"

text \<open>
  The state of the service: the store and its two indexes, and the lines appended to the
  log file (a line is the JSON text of an entry and is kept as the entry).
\<close>

record AuditState =
  entries :: "string \<Rightarrow> AuditEntry option"
  entriesByCallId :: "string \<Rightarrow> string list option"
  entriesByProspectId :: "int \<Rightarrow> string list option"
  fileLines :: "AuditEntry list"

text \<open>
  The constructor fills the configuration from the optional fields of its argument and
  keeps the path of the log file when logging to a file is on and a path is given.
\<close>

definition AuditService_config ::
  "real option \<Rightarrow> bool option \<Rightarrow> bool option \<Rightarrow> string option \<Rightarrow> AuditConfig" where
  "AuditService_config retention rollbackOn toFile path =
     \<lparr>retentionDays = (case retention of Some d \<Rightarrow> d | None \<Rightarrow> 90),
      enableRollback = (case rollbackOn of Some b \<Rightarrow> b | None \<Rightarrow> True),
      logToFile = (case toFile of Some b \<Rightarrow> b | None \<Rightarrow> False),
      logFilePath = path\<rparr>"

definition serviceLogFilePath :: "AuditConfig \<Rightarrow> string option" where
  "serviceLogFilePath cfg =
     (if logToFile cfg \<and> (case logFilePath cfg of Some p \<Rightarrow> p \<noteq> [] | None \<Rightarrow> False)
      then logFilePath cfg else None)"

definition emptyAuditState :: AuditState where
  "emptyAuditState =
     \<lparr>entries = Map.empty, entriesByCallId = Map.empty, entriesByProspectId = Map.empty,
      fileLines = []\<rparr>"

text \<open>
  \<open>addEntry\<close> stores the entry under its id, appends the id to the list of its call and,
  when the prospect id is truthy (present and not 0), to the list of its prospect, and
  appends the entry to the log file when the service has one. \<open>writeOk\<close> tells whether
  \<open>fs.appendFile\<close> succeeds; its failure is caught and only logged.
\<close>

definition addEntry :: "AuditConfig \<Rightarrow> bool \<Rightarrow> AuditEntry \<Rightarrow> AuditState \<Rightarrow> string \<times> AuditState" where
  "addEntry cfg writeOk entry st =
     (let st1 = st\<lparr>entries := (entries st)(id_entry entry \<mapsto> entry)\<rparr>;
          callEntries = (case entriesByCallId st1 (AuditEntry.callId entry) of
                           Some l \<Rightarrow> l | None \<Rightarrow> []);
          st2 = st1\<lparr>entriesByCallId :=
                  (entriesByCallId st1)(AuditEntry.callId entry \<mapsto> callEntries @ [id_entry entry])\<rparr>;
          st3 = (case prospectId entry of
                   None \<Rightarrow> st2
                 | Some p \<Rightarrow>
                     if p = 0 then st2
                     else (let prospectEntries = (case entriesByProspectId st2 p of
                                                    Some l \<Rightarrow> l | None \<Rightarrow> [])
                           in st2\<lparr>entriesByProspectId :=
                                (entriesByProspectId st2)(p \<mapsto> prospectEntries @ [id_entry entry])\<rparr>));
          st4 = (case serviceLogFilePath cfg of
                   None \<Rightarrow> st3
                 | Some path \<Rightarrow>
                     if writeOk then st3\<lparr>fileLines := fileLines st3 @ [entry]\<rparr> else st3)
      in (id_entry entry, st4))"

fun actionName :: "AuditAction \<Rightarrow> string" where
  "actionName STAGE_CHANGE = ''STAGE_CHANGE''"
| "actionName DISPOSITION_SET = ''DISPOSITION_SET''"
| "actionName NOTE_ADDED = ''NOTE_ADDED''"
| "actionName TASK_CREATED = ''TASK_CREATED''"
| "actionName FLAG_SET = ''FLAG_SET''"
| "actionName CONFIRMATION_REQUIRED = ''CONFIRMATION_REQUIRED''"
| "actionName ROLLBACK = ''ROLLBACK''"
| "actionName ERROR = ''ERROR''"

text \<open>
  \<open>rollback\<close>: \<open>now\<close> is the value of \<open>new Date()\<close> and \<open>newId\<close> the value of \<open>uuidv4()\<close>
  for the entry it creates.
\<close>

definition rollback ::
  "AuditConfig \<Rightarrow> int \<Rightarrow> string \<Rightarrow> bool \<Rightarrow> string \<Rightarrow> string \<Rightarrow> AuditState
     \<Rightarrow> RollbackResult \<times> AuditState" where
  "rollback cfg now newId writeOk auditId' confirmedBy' st =
     (if \<not> enableRollback cfg
      then (\<lparr>success = False, auditId = [], originalAuditId = auditId',
             message = ''Rollback is disabled in configuration'',
             RollbackResult.previousValue = None, restoredValue = None\<rparr>, st)
      else case entries st auditId' of
        None \<Rightarrow>
          (\<lparr>success = False, auditId = [], originalAuditId = auditId',
            message = ''Audit entry not found'',
            RollbackResult.previousValue = None, restoredValue = None\<rparr>, st)
      | Some originalEntry \<Rightarrow>
          if AuditEntry.action originalEntry \<notin> set [STAGE_CHANGE, DISPOSITION_SET]
          then (\<lparr>success = False, auditId = [], originalAuditId = auditId',
                 message = ''Cannot rollback action type: '' @ actionName (AuditEntry.action originalEntry),
                 RollbackResult.previousValue = None, restoredValue = None\<rparr>, st)
          else
            (let rollbackEntry =
                   \<lparr>id_entry = newId, timestamp = now,
                    AuditEntry.callId = AuditEntry.callId originalEntry,
                    prospectId = prospectId originalEntry,
                    AuditEntry.action = ROLLBACK,
                    AuditEntry.previousValue = newValue originalEntry,
                    newValue = AuditEntry.previousValue originalEntry,
                    AuditEntry.confidence = None,
                    automated = False,
                    confirmedBy = Some confirmedBy',
                    rollbackOf = Some auditId'\<rparr>;
                 (_, st') = addEntry cfg writeOk rollbackEntry st
             in (\<lparr>success = True, auditId = id_entry rollbackEntry, originalAuditId = auditId',
                   message = ''Rollback recorded successfully'',
                   RollbackResult.previousValue = newValue originalEntry,
                   restoredValue = AuditEntry.previousValue originalEntry\<rparr>, st')))"

text \<open>A state with one stage change from \<open>WORKING\<close> to \<open>QUALIFIED\<close>, for examples.\<close>

definition sampleEntry :: "string \<Rightarrow> AuditAction \<Rightarrow> AuditEntry" where
  "sampleEntry i a =
     \<lparr>id_entry = i, timestamp = 1000, AuditEntry.callId = ''call-1'', prospectId = Some 7,
      AuditEntry.action = a, AuditEntry.previousValue = Some ''WORKING'',
      newValue = Some ''QUALIFIED'', AuditEntry.confidence = Some (9 / 10), automated = True,
      confirmedBy = None, rollbackOf = None\<rparr>"

definition sampleAuditState :: "AuditConfig \<Rightarrow> AuditAction \<Rightarrow> AuditState" where
  "sampleAuditState cfg a = snd (addEntry cfg True (sampleEntry ''e1'' a) emptyAuditState)"

text \<open>The entry that a rollback of the entry \<open>e\<close> with id \<open>auditId'\<close> records.\<close>

definition rollbackEntryOf :: "int \<Rightarrow> string \<Rightarrow> string \<Rightarrow> string \<Rightarrow> AuditEntry \<Rightarrow> AuditEntry" where
  "rollbackEntryOf now newId auditId' actor e =
     \<lparr>id_entry = newId, timestamp = now, AuditEntry.callId = AuditEntry.callId e,
      prospectId = prospectId e, AuditEntry.action = ROLLBACK,
      AuditEntry.previousValue = newValue e, newValue = AuditEntry.previousValue e,
      AuditEntry.confidence = None, automated = False, confirmedBy = Some actor,
      rollbackOf = Some auditId'\<rparr>"

section \<open>Alerts (alert.service.ts)\<close>

subsection \<open>Types (stall.ts)\<close>

datatype StallSeverity = LOW | MEDIUM | HIGH | CRITICAL

datatype DealStage =
    QUALIFICATION | DISCOVERY | DEMO | PROPOSAL | NEGOTIATION | CLOSED_WON | CLOSED_LOST

datatype AlertPriority = LOW | MEDIUM | HIGH | URGENT

datatype AlertChannel = EMAIL | SLACK | SALESFORCE_TASK | WEBHOOK

datatype AlertRecipientType = REP | MANAGER | BOTH

record StallStatus =
  dealId :: string
  accountId :: string
  accountName :: string
  dealStage :: DealStage
  dealValue :: "real option"
  ownerRepId :: string
  ownerRepName :: string
  managerId :: "string option"
  managerName :: "string option"
  isStalled :: bool
  severity :: StallSeverity
  stallScore :: jsnum
  primaryCategory :: "StallPhraseCategory option"
  signalCount :: nat
  latestSignalAt :: "int option"
  signals :: "StallSignal list"
  daysSinceLastPositiveEngagement :: "int option"
  lastPositiveEngagementDate :: "int option"
  lastPositiveEngagementType :: "string option"
  recommendedActions :: "string list"
  calculatedAt :: int
  alertSentAt :: "int option"

record Recipient =
  id_recipient :: string
  name :: string
  email :: string
  type :: AlertRecipientType

text \<open>
  The \<open>summary\<close> of an alert is a message formatted with \<open>toLocaleString\<close>, which
  depends on the locale of the process; it is not modelled.
\<close>

record StallAlert =
  id_alert :: string
  dealId :: string
  accountId :: string
  accountName :: string
  title :: string
  detectedPhrase :: string
  confidenceScore :: real
  timeSinceStallSignal :: real
  timeSinceLastPositiveEngagement :: "int option"
  priority :: AlertPriority
  recipientType :: AlertRecipientType
  recipients :: "Recipient list"
  channels :: "AlertChannel list"
  deliveredVia :: "AlertChannel list"
  deliveredAt :: "int option"
  recommendedAction :: string
  actionUrl :: "string option"
  acknowledged :: bool
  acknowledgedAt :: "int option"
  acknowledgedBy :: "string option"
  createdAt :: int
  expiresAt :: int
  stallStatus :: StallStatus

record AlertServiceConfig =
  alertWithinHours :: real
  alertExpirationHours :: real
  enabledChannels :: "AlertChannel list"
  escalateToManagerAfterHours :: real
  escalateToBothOnCritical :: bool
  webhookUrl :: "string option"

definition DEFAULT_ALERT_CONFIG :: AlertServiceConfig where
  "DEFAULT_ALERT_CONFIG =
     \<lparr>AlertServiceConfig.alertWithinHours = 24, alertExpirationHours = 72,
      enabledChannels = [WEBHOOK], escalateToManagerAfterHours = 24,
      escalateToBothOnCritical = True, webhookUrl = None\<rparr>"

record AlertContext =
  topPhrase :: string
  signalSource :: string
  daysSinceEngagement :: "int option"

record AlertState =
  alerts :: "string \<Rightarrow> StallAlert option"
  alertsByDeal :: "string \<Rightarrow> string list option"

definition emptyAlertState :: AlertState where
  "emptyAlertState = \<lparr>alerts = Map.empty, alertsByDeal = Map.empty\<rparr>"

subsection \<open>Helpers of the service\<close>

text \<open>A string, or an optional string, is truthy when it is present and not empty.\<close>

definition truthy :: "string option \<Rightarrow> bool" where
  "truthy s = (case s of None \<Rightarrow> False | Some t \<Rightarrow> t \<noteq> [])"

fun mapSeverityToPriority :: "StallSeverity \<Rightarrow> AlertPriority" where
  "mapSeverityToPriority CRITICAL = URGENT"
| "mapSeverityToPriority StallSeverity.HIGH = AlertPriority.HIGH"
| "mapSeverityToPriority StallSeverity.MEDIUM = AlertPriority.MEDIUM"
| "mapSeverityToPriority StallSeverity.LOW = AlertPriority.LOW"

definition determineRecipientType :: "AlertServiceConfig \<Rightarrow> StallStatus \<Rightarrow> AlertPriority \<Rightarrow> AlertRecipientType" where
  "determineRecipientType cfg status p =
     (if p = URGENT \<and> escalateToBothOnCritical cfg then BOTH
      else if p = AlertPriority.HIGH \<and> truthy (managerId status) then BOTH
      else REP)"

definition buildRecipients :: "StallStatus \<Rightarrow> AlertRecipientType \<Rightarrow> Recipient list" where
  "buildRecipients status rt =
     (if rt = REP \<or> rt = BOTH
      then [\<lparr>id_recipient = ownerRepId status, name = ownerRepName status,
             email = ownerRepId status @ ''@company.com'', Recipient.type = REP\<rparr>]
      else [])
     @ (case managerId status of
          None \<Rightarrow> []
        | Some m \<Rightarrow>
            if (rt = MANAGER \<or> rt = BOTH) \<and> m \<noteq> []
            then [\<lparr>id_recipient = m,
                   name = (case managerName status of
                             Some n \<Rightarrow> if n \<noteq> [] then n else ''Manager''
                           | None \<Rightarrow> ''Manager''),
                   email = m @ ''@company.com'', Recipient.type = MANAGER\<rparr>]
            else [])"

definition buildAlertContext :: "StallStatus \<Rightarrow> AlertContext" where
  "buildAlertContext status =
     (case StallStatus.signals status of
        [] \<Rightarrow> \<lparr>topPhrase = ''deal stall detected'', signalSource = ''recent interaction'',
               daysSinceEngagement = daysSinceLastPositiveEngagement status\<rparr>
      | s0 # rest \<Rightarrow>
          (let latestSignal = latestOf s0 rest in
           \<lparr>topPhrase = (case phraseMatches latestSignal of
                           [] \<Rightarrow> ''deal stall detected''
                         | m # _ \<Rightarrow> matchedText m),
            signalSource = (if source latestSignal = CALL_TRANSCRIPT then ''a recent call''
                            else if source latestSignal = StallSignalSource.EMAIL then ''an email''
                            else ''recent interaction''),
            daysSinceEngagement = daysSinceLastPositiveEngagement status\<rparr>))"

definition getHighestConfidence :: "StallStatus \<Rightarrow> real" where
  "getHighestConfidence status =
     (case StallStatus.signals status of
        [] \<Rightarrow> 0
      | s0 # rest \<Rightarrow> foldl max (baseConfidence s0) (map baseConfidence rest))"

definition buildActionUrl :: "StallStatus \<Rightarrow> string option" where
  "buildActionUrl status =
     (if StallStatus.dealId status \<noteq> []
      then Some (''https://salesforce.com/lightning/r/Opportunity/'' @ StallStatus.dealId status @ ''/view'')
      else None)"

text \<open>The \<open>title\<close> and \<open>recommendedAction\<close> members of \<open>ALERT_TEMPLATES\<close>.\<close>

fun templateTitle :: "AlertPriority \<Rightarrow> StallStatus \<Rightarrow> string" where
  "templateTitle URGENT status =
     ''URGENT: '' @ StallStatus.accountName status @ '' - Deal Stall Detected''"
| "templateTitle AlertPriority.HIGH status =
     ''HIGH PRIORITY: '' @ StallStatus.accountName status @ '' - Stall Warning''"
| "templateTitle AlertPriority.MEDIUM status =
     StallStatus.accountName status @ '' - Deal Momentum Alert''"
| "templateTitle AlertPriority.LOW status =
     StallStatus.accountName status @ '' - Minor Stall Indicator''"

definition firstActionOr :: "StallStatus \<Rightarrow> string \<Rightarrow> string" where
  "firstActionOr status dflt =
     (case recommendedActions status of
        [] \<Rightarrow> dflt
      | a # _ \<Rightarrow> if a \<noteq> [] then a else dflt)"

fun templateRecommendedAction :: "AlertPriority \<Rightarrow> StallStatus \<Rightarrow> string" where
  "templateRecommendedAction URGENT status =
     firstActionOr status ''Review deal immediately and take action within 24 hours''"
| "templateRecommendedAction AlertPriority.HIGH status =
     firstActionOr status ''Schedule follow-up within 48 hours''"
| "templateRecommendedAction AlertPriority.MEDIUM status =
     firstActionOr status ''Review and adjust engagement approach''"
| "templateRecommendedAction AlertPriority.LOW status =
     ''Monitor deal and prepare contingency approach''"

text \<open>\<open>new Date(t)\<close> keeps the integer part of a time value.\<close>

definition js_trunc :: "real \<Rightarrow> int" where
  "js_trunc x = (if 0 \<le> x then \<lfloor>x\<rfloor> else \<lceil>x\<rceil>)"

subsection \<open>Generating and acknowledging alerts\<close>

text \<open>
  \<open>now\<close> is the value of the clock during the call (the source reads the clock several
  times within one call; the readings are taken as equal) and \<open>newId\<close> the value of
  \<open>uuidv4()\<close>.
\<close>

definition generateAlert ::
  "AlertServiceConfig \<Rightarrow> int \<Rightarrow> string \<Rightarrow> StallStatus \<Rightarrow> AlertState
     \<Rightarrow> StallAlert option \<times> AlertState" where
  "generateAlert cfg now newId status st =
     (if \<not> isStalled status then (None, st)
      else
        (let existingAlerts = (case alertsByDeal st (StallStatus.dealId status) of
                                 Some l \<Rightarrow> l | None \<Rightarrow> []);
             recentUnacked =
               list_ex (\<lambda>alertId.
                          case alerts st alertId of
                            None \<Rightarrow> False
                          | Some alert \<Rightarrow>
                              (let hoursSinceCreated = hoursBetween now (createdAt alert)
                               in \<not> acknowledged alert
                                  \<and> hoursSinceCreated < AlertServiceConfig.alertWithinHours cfg))
                       existingAlerts
         in if recentUnacked then (None, st)
            else
              (let priority' = mapSeverityToPriority (severity status);
                   recipientType' = determineRecipientType cfg status priority';
                   context' = buildAlertContext status;
                   recipients' = buildRecipients status recipientType';
                   expiresAt' = js_trunc (real_of_int now
                                  + alertExpirationHours cfg * 60 * 60 * 1000);
                   alert =
                     \<lparr>id_alert = newId,
                      StallAlert.dealId = StallStatus.dealId status,
                      StallAlert.accountId = StallStatus.accountId status,
                      StallAlert.accountName = StallStatus.accountName status,
                      title = templateTitle priority' status,
                      detectedPhrase = topPhrase context',
                      confidenceScore = getHighestConfidence status,
                      timeSinceStallSignal =
                        (case latestSignalAt status of
                           Some t \<Rightarrow> hoursBetween now t | None \<Rightarrow> 0),
                      timeSinceLastPositiveEngagement = daysSinceLastPositiveEngagement status,
                      StallAlert.priority = priority',
                      recipientType = recipientType',
                      recipients = recipients',
                      channels = enabledChannels cfg,
                      deliveredVia = [],
                      deliveredAt = None,
                      recommendedAction = templateRecommendedAction priority' status,
                      actionUrl = buildActionUrl status,
                      acknowledged = False,
                      acknowledgedAt = None,
                      acknowledgedBy = None,
                      createdAt = now,
                      expiresAt = expiresAt',
                      stallStatus = status\<rparr>;
                   st1 = st\<lparr>alerts := (alerts st)(id_alert alert \<mapsto> alert)\<rparr>;
                   dealAlerts = (case alertsByDeal st1 (StallStatus.dealId status) of
                                   Some l \<Rightarrow> l | None \<Rightarrow> []);
                   st2 = st1\<lparr>alertsByDeal :=
                           (alertsByDeal st1)(StallStatus.dealId status \<mapsto> dealAlerts @ [id_alert alert])\<rparr>
               in (Some alert, st2))))"

definition acknowledgeAlert ::
  "int \<Rightarrow> string \<Rightarrow> string \<Rightarrow> AlertState \<Rightarrow> StallAlert option \<times> AlertState" where
  "acknowledgeAlert now alertId who st =
     (case alerts st alertId of
        None \<Rightarrow> (None, st)
      | Some alert \<Rightarrow>
          (let alert' = alert\<lparr>acknowledged := True, acknowledgedAt := Some now,
                               acknowledgedBy := Some who\<rparr>
           in (Some alert', st\<lparr>alerts := (alerts st)(alertId \<mapsto> alert')\<rparr>)))"

text \<open>
  For the statements about alerts: the ids listed for a deal, an alert that is
  unacknowledged and younger than the alert window, and the invariant that a deal has at
  most one such alert.
\<close>

definition dealAlertIds :: "AlertState \<Rightarrow> string \<Rightarrow> string list" where
  "dealAlertIds st d = (case alertsByDeal st d of Some l \<Rightarrow> l | None \<Rightarrow> [])"

definition activeAlert :: "AlertServiceConfig \<Rightarrow> int \<Rightarrow> AlertState \<Rightarrow> string \<Rightarrow> bool" where
  "activeAlert cfg now st alertId =
     (case alerts st alertId of
        None \<Rightarrow> False
      | Some alert \<Rightarrow> \<not> acknowledged alert
          \<and> hoursBetween now (createdAt alert) < AlertServiceConfig.alertWithinHours cfg)"

definition atMostOneActive :: "AlertServiceConfig \<Rightarrow> int \<Rightarrow> AlertState \<Rightarrow> string \<Rightarrow> bool" where
  "atMostOneActive cfg now st d =
     (length (filter (activeAlert cfg now st) (dealAlertIds st d)) \<le> 1)"

text \<open>A stalled status of the deal \<open>deal-1\<close>, for examples.\<close>

definition sampleStatus :: "bool \<Rightarrow> StallStatus" where
  "sampleStatus stalled =
     \<lparr>StallStatus.dealId = ''deal-1'', StallStatus.accountId = ''acct-1'',
      StallStatus.accountName = ''Acme'', dealStage = DealStage.PROPOSAL,
      dealValue = Some 50000, ownerRepId = ''rep-1'', ownerRepName = ''Rita'',
      managerId = Some ''mgr-1'', managerName = Some ''Max'', isStalled = stalled,
      severity = StallSeverity.HIGH, stallScore = Fin 65, primaryCategory = Some THINKING,
      signalCount = 1, latestSignalAt = Some 0,
      StallStatus.signals = [sampleSignal ''s1'' (Fin (7 / 10)) 0],
      daysSinceLastPositiveEngagement = Some 3, lastPositiveEngagementDate = None,
      lastPositiveEngagementType = None,
      recommendedActions = [''Set a specific follow-up date and time''],
      calculatedAt = 0, alertSentAt = None\<rparr>"

text \<open>The state after a first alert \<open>a1\<close> for the deal, generated at time 1000.\<close>

definition sampleAlertState :: AlertState where
  "sampleAlertState =
     snd (generateAlert DEFAULT_ALERT_CONFIG 1000 ''a1'' (sampleStatus True) emptyAlertState)"

section \<open>Phrase detection (stall-detector.service.ts)\<close>

subsection \<open>Regular expressions\<close>

text \<open>
  The patterns of \<open>STALL_PATTERNS\<close> are built from literal characters, \<open>\b\<close>, \<open>\s+\<close>,
  \<open>\s*\<close>, groups with alternatives and optional groups or characters, and all carry the
  flag \<open>i\<close>. A pattern is a term of the type \<open>regex\<close>; \<open>matchAt r s i\<close> lists the ends
  of the matches of \<open>r\<close> in \<open>s\<close> that start at \<open>i\<close>, in the order in which the
  backtracking matcher of JavaScript tries them: the alternatives of a group from left to
  right, an optional part first taken and then left out, and a run of white space from the
  longest to the shortest. The first end of the list is the end of the match that
  \<open>exec\<close> reports.
\<close>

datatype regex =
    Lit string
  | WordBoundary
  | Spaces1
  | Spaces0
  | Seq regex regex
  | Alt regex regex
  | Opt regex

fun seqs :: "regex list \<Rightarrow> regex" where
  "seqs [] = Lit []"
| "seqs [r] = r"
| "seqs (r # rs) = Seq r (seqs rs)"

fun alts :: "regex list \<Rightarrow> regex" where
  "alts [] = Lit []"
| "alts [r] = r"
| "alts (r # rs) = Alt r (alts rs)"

text \<open>
  White space (\<open>\s\<close>, and what \<open>trim\<close> removes) and word characters (\<open>\w\<close>) among the
  code units below 256. Under the flag \<open>i\<close> a letter of a pattern matches the same
  letter in either case; the characters of the patterns are ASCII, and no other code
  unit is canonicalised to an ASCII letter.
\<close>

definition isSpace :: "char \<Rightarrow> bool" where
  "isSpace c = (c \<in> set [CHR 0x09, CHR 0x0A, CHR 0x0B, CHR 0x0C, CHR 0x0D, CHR 0x20, CHR 0xA0])"

definition isWordChar :: "char \<Rightarrow> bool" where
  "isWordChar c =
     (c \<in> set ''abcdefghijklmnopqrstuvwxyzABCDEFGHIJKLMNOPQRSTUVWXYZ0123456789_'')"

definition canonicalize :: "char \<Rightarrow> char" where
  "canonicalize c =
     (case map_of (zip ''abcdefghijklmnopqrstuvwxyz'' ''ABCDEFGHIJKLMNOPQRSTUVWXYZ'') c of
        Some u \<Rightarrow> u
      | None \<Rightarrow> c)"

definition isWordAt :: "string \<Rightarrow> nat \<Rightarrow> bool" where
  "isWordAt s i = (i < length s \<and> isWordChar (s ! i))"

fun matchAt :: "regex \<Rightarrow> string \<Rightarrow> nat \<Rightarrow> nat list" where
  "matchAt (Lit cs) s i =
     (if i + length cs \<le> length s
         \<and> map canonicalize (take (length cs) (drop i s)) = map canonicalize cs
      then [i + length cs] else [])"
| "matchAt WordBoundary s i =
     (let a = (0 < i \<and> isWordAt s (i - 1)); b = isWordAt s i
      in if a \<noteq> b then [i] else [])"
| "matchAt Spaces1 s i =
     (let k = length (takeWhile isSpace (drop i s)) in map (\<lambda>j. i + j) (rev [1..<Suc k]))"
| "matchAt Spaces0 s i =
     (let k = length (takeWhile isSpace (drop i s)) in map (\<lambda>j. i + j) (rev [0..<Suc k]))"
| "matchAt (Seq a b) s i = concat (map (matchAt b s) (matchAt a s i))"
| "matchAt (Alt a b) s i = matchAt a s i @ matchAt b s i"
| "matchAt (Opt a) s i = matchAt a s i @ [i]"

text \<open>
  \<open>regex.exec(content)\<close> of a global expression starts at \<open>lastIndex\<close> and tries the
  start positions up to the length of the text; it returns the start and the end of the
  first match, or nothing.
\<close>

fun firstMatch :: "regex \<Rightarrow> string \<Rightarrow> nat list \<Rightarrow> (nat \<times> nat) option" where
  "firstMatch r s [] = None"
| "firstMatch r s (i # rest) =
     (case matchAt r s i of
        [] \<Rightarrow> firstMatch r s rest
      | e # _ \<Rightarrow> Some (i, e))"

definition exec :: "regex \<Rightarrow> string \<Rightarrow> nat \<Rightarrow> (nat \<times> nat) option" where
  "exec r s lastIndex = firstMatch r s [lastIndex..<Suc (length s)]"

text \<open>
  The loop \<open>while ((match = regex.exec(content)) !== null)\<close>: after a match
  \<open>lastIndex\<close> is its end. A match of the empty string leaves \<open>lastIndex\<close> where the
  next call finds the same match again, and the loop does not end: the result is
  \<open>None\<close>.
\<close>

function matchAll :: "regex \<Rightarrow> string \<Rightarrow> nat \<Rightarrow> (nat \<times> nat) list option" where
  "matchAll r s lastIndex =
     (case exec r s lastIndex of
        None \<Rightarrow> Some []
      | Some (i, e) \<Rightarrow>
          if e \<le> i then None
          else map_option (\<lambda>ms. (i, e) # ms) (matchAll r s e))"
  by pat_completeness auto
termination
proof (relation "measure (\<lambda>(r, s, lastIndex). Suc (length s) - lastIndex)")
  show "wf (measure (\<lambda>(r, s, lastIndex). Suc (length s) - lastIndex))"
    by simp
next
  fix r :: regex and s :: string and lastIndex :: nat and x :: "nat \<times> nat" and i e :: nat
  assume ex: "exec r s lastIndex = Some x" and x: "(i, e) = x" and pos: "\<not> e \<le> i"
  have mem: "firstMatch r s cands = Some (i, e) \<Longrightarrow> i \<in> set cands" for cands
    by (induction cands) (auto split: list.splits)
  from ex x have "firstMatch r s [lastIndex..<Suc (length s)] = Some (i, e)"
    unfolding exec_def by (simp only:)
  then have "i \<in> set [lastIndex..<Suc (length s)]"
    by (rule mem)
  with pos show "((r, s, e), (r, s, lastIndex)) \<in> measure (\<lambda>(r, s, lastIndex). Suc (length s) - lastIndex)"
    by auto
qed

text \<open>
  For the statement that the phrase loop ends: an expression that matches no empty
  string, by its form.
\<close>

fun consumes :: "regex \<Rightarrow> bool" where
  "consumes (Lit cs) = (cs \<noteq> [])"
| "consumes WordBoundary = False"
| "consumes Spaces1 = True"
| "consumes Spaces0 = False"
| "consumes (Seq a b) = (consumes a \<or> consumes b)"
| "consumes (Alt a b) = (consumes a \<and> consumes b)"
| "consumes (Opt a) = False"

subsection \<open>The pattern table\<close>

record PhrasePattern =
  pattern :: regex
  category :: StallPhraseCategory
  baseConfidence :: real
  phraseLabel :: string

definition STALL_PATTERNS :: "PhrasePattern list" where
  "STALL_PATTERNS = [
    \<lparr>pattern = seqs [WordBoundary, alts [Lit ''send'', Lit ''email'', Lit ''get''], Spaces1,
        Opt (seqs [Lit ''me'', Spaces1]), Opt (seqs [Lit ''the'', Spaces1]),
        alts [Lit ''pricing'', seqs [Lit ''price'', Spaces0, Lit ''list''], Lit ''quote'',
              Lit ''proposal''],
        WordBoundary],
      category = PRICING_REQUEST, baseConfidence = 6 / 10, phraseLabel = ''send pricing''\<rparr>,
    \<lparr>pattern = seqs [WordBoundary, Lit ''what'', alts [Lit '''s'', seqs [Spaces1, Lit ''is'']],
        Spaces1, Opt (seqs [Lit ''the'', Spaces1]),
        alts [Lit ''price'', Lit ''cost'', Lit ''pricing''], WordBoundary],
      category = PRICING_REQUEST, baseConfidence = 4 / 10, phraseLabel = ''price inquiry''\<rparr>,
    \<lparr>pattern = seqs [WordBoundary, Lit ''just'', Spaces1, Lit ''send'', Spaces1,
        Opt (seqs [Lit ''me'', Spaces1]), Opt (seqs [Lit ''the'', Spaces1]), Lit ''pricing'',
        WordBoundary],
      category = PRICING_REQUEST, baseConfidence = 8 / 10, phraseLabel = ''just send pricing''\<rparr>,

    \<lparr>pattern = seqs [WordBoundary, alts [Lit ''need'', Lit ''have''], Spaces1, Lit ''to'', Spaces1,
        Opt (seqs [Lit ''get'', Spaces1]), Lit ''approval'', WordBoundary],
      category = APPROVAL_NEEDED, baseConfidence = 75 / 100,
      phraseLabel = ''need to get approval''\<rparr>,
    \<lparr>pattern = seqs [WordBoundary, Lit ''need'', Spaces1, Opt (seqs [Lit ''my'', Spaces1]),
        alts [Lit ''boss'', Lit ''manager'', Lit ''director'', Lit ''vp'', Lit ''cfo'', Lit ''ceo''],
        Opt (Lit '''s''), Spaces1, Lit ''approval'', WordBoundary],
      category = APPROVAL_NEEDED, baseConfidence = 8 / 10,
      phraseLabel = ''need executive approval''\<rparr>,
    \<lparr>pattern = seqs [WordBoundary, Lit ''wait'', Opt (Lit ''ing''), Spaces1, Lit ''for'', Spaces1,
        Lit ''approval'', WordBoundary],
      category = APPROVAL_NEEDED, baseConfidence = 7 / 10,
      phraseLabel = ''waiting for approval''\<rparr>,
    \<lparr>pattern = seqs [WordBoundary, Lit ''not'', Spaces1, Lit ''in'', Spaces1,
        Opt (seqs [Lit ''the'', Spaces1]), Lit ''budget'', WordBoundary],
      category = APPROVAL_NEEDED, baseConfidence = 85 / 100, phraseLabel = ''not in budget''\<rparr>,

    \<lparr>pattern = seqs [WordBoundary, Lit ''let'', Spaces1, Lit ''me'', Spaces1, Lit ''think'', Spaces1,
        alts [seqs [Lit ''about'', Spaces1, Lit ''it''], seqs [Lit ''on'', Spaces1, Lit ''it''],
              seqs [Lit ''it'', Spaces1, Lit ''over'']],
        WordBoundary],
      category = THINKING, baseConfidence = 7 / 10, phraseLabel = ''let me think about it''\<rparr>,
    \<lparr>pattern = seqs [WordBoundary, Opt (seqs [Lit ''i'', Spaces1]), Lit ''need'', Spaces1,
        Opt (seqs [Lit ''some'', Spaces1]), Lit ''time'', Spaces1, Lit ''to'', Spaces1, Lit ''think'',
        WordBoundary],
      category = THINKING, baseConfidence = 65 / 100, phraseLabel = ''need time to think''\<rparr>,
    \<lparr>pattern = seqs [WordBoundary, Lit ''give'', Spaces1, alts [Lit ''me'', Lit ''us''], Spaces1,
        Opt (seqs [Lit ''some'', Spaces1]), Lit ''time'', Spaces1, Lit ''to'', Spaces1,
        alts [Lit ''think'', Lit ''consider'', Lit ''evaluate''], WordBoundary],
      category = THINKING, baseConfidence = 7 / 10,
      phraseLabel = ''give us time to consider''\<rparr>,

    \<lparr>pattern = seqs [WordBoundary, Opt (seqs [Lit ''need'', Spaces1, Lit ''to'', Spaces1]),
        Lit ''check'', Spaces1, Lit ''with'', Spaces1, Opt (seqs [Lit ''my'', Spaces1]), Lit ''team'',
        WordBoundary],
      category = TEAM_CHECK, baseConfidence = 6 / 10, phraseLabel = ''check with my team''\<rparr>,
    \<lparr>pattern = seqs [WordBoundary, Lit ''run'', Spaces1, alts [Lit ''it'', Lit ''this''], Spaces1,
        Lit ''by'', Spaces1, Opt (seqs [Lit ''my'', Spaces1]), Lit ''team'', WordBoundary],
      category = TEAM_CHECK, baseConfidence = 6 / 10, phraseLabel = ''run by team''\<rparr>,
    \<lparr>pattern = seqs [WordBoundary, Lit ''get'', Spaces1, Opt (seqs [Lit ''my'', Spaces1]),
        Lit ''team'', Opt (Lit '''s''), Spaces1,
        alts [Lit ''buy-in'', Lit ''input'', Lit ''feedback''], WordBoundary],
      category = TEAM_CHECK, baseConfidence = 65 / 100, phraseLabel = ''get team buy-in''\<rparr>,
    \<lparr>pattern = seqs [WordBoundary, Lit ''discuss'', Spaces1, Opt (seqs [Lit ''it'', Spaces1]),
        Lit ''with'', Spaces1, Opt (seqs [Lit ''the'', Spaces1]), Lit ''team'', WordBoundary],
      category = TEAM_CHECK, baseConfidence = 55 / 100, phraseLabel = ''discuss with team''\<rparr>,

    \<lparr>pattern = seqs [WordBoundary, Opt (seqs [Lit ''need'', Spaces1, Lit ''to'', Spaces1]),
        Lit ''talk'', Spaces1, Lit ''to'', Spaces1, Opt (seqs [Lit ''my'', Spaces1]),
        alts [Lit ''boss'', Lit ''manager'', Lit ''director'', Lit ''vp'', Lit ''cfo'', Lit ''ceo'',
              Lit ''owner'', Lit ''partner''],
        WordBoundary],
      category = DECISION_MAKER, baseConfidence = 8 / 10,
      phraseLabel = ''talk to decision maker''\<rparr>,
    \<lparr>pattern = seqs [WordBoundary, Opt (seqs [Lit ''my'', Spaces1]),
        alts [Lit ''boss'', Lit ''manager'', Lit ''director'', Lit ''vp'', Lit ''cfo'', Lit ''ceo''],
        Spaces1, alts [Lit ''makes'', Lit ''handles'', Lit ''decides''], WordBoundary],
      category = DECISION_MAKER, baseConfidence = 75 / 100, phraseLabel = ''executive decides''\<rparr>,
    \<lparr>pattern = seqs [WordBoundary, Lit ''i'', alts [Lit '''m'', seqs [Spaces1, Lit ''am'']], Spaces1,
        Lit ''not'', Spaces1, Lit ''the'', Spaces1,
        alts [seqs [Lit ''decision'', Spaces0, Lit ''maker''],
              seqs [Lit ''one'', Spaces1, Lit ''who'', Spaces1, Lit ''decides'']],
        WordBoundary],
      category = DECISION_MAKER, baseConfidence = 9 / 10,
      phraseLabel = ''not the decision maker''\<rparr>,
    \<lparr>pattern = seqs [WordBoundary, Lit ''someone'', Spaces1, Lit ''else'', Spaces1,
        alts [Lit ''makes'', Lit ''handles''], Spaces1, Opt (seqs [Lit ''that'', Spaces1]),
        Lit ''decision'', WordBoundary],
      category = DECISION_MAKER, baseConfidence = 85 / 100,
      phraseLabel = ''someone else decides''\<rparr>,

    \<lparr>pattern = seqs [WordBoundary, Lit ''call'', Spaces1, Opt (seqs [Lit ''me'', Spaces1]),
        Lit ''back'', Spaces1, Opt (seqs [Lit ''next'', Spaces1]),
        alts [Lit ''week'', Lit ''month'', Lit ''quarter''], WordBoundary],
      category = CALLBACK_REQUEST, baseConfidence = 75 / 100, phraseLabel = ''call back later''\<rparr>,
    \<lparr>pattern = seqs [WordBoundary,
        alts [seqs [Lit ''reach'', Spaces1, Lit ''out''], seqs [Lit ''follow'', Spaces1, Lit ''up''],
              seqs [Lit ''get'', Spaces1, Lit ''back'', Spaces1, Lit ''to'', Spaces1, Lit ''me'']],
        Spaces1, Opt (seqs [Lit ''next'', Spaces1]),
        alts [Lit ''week'', Lit ''month'', Lit ''quarter''], WordBoundary],
      category = CALLBACK_REQUEST, baseConfidence = 7 / 10, phraseLabel = ''follow up later''\<rparr>,
    \<lparr>pattern = seqs [WordBoundary, Lit ''touch'', Spaces1, Lit ''base'', Spaces1,
        Opt (seqs [Lit ''in'', Spaces1]), Lit ''a'', Spaces1, Opt (seqs [Lit ''few'', Spaces1]),
        alts [seqs [Lit ''week'', Opt (Lit ''s'')], seqs [Lit ''month'', Opt (Lit ''s'')]],
        WordBoundary],
      category = CALLBACK_REQUEST, baseConfidence = 7 / 10,
      phraseLabel = ''touch base in weeks/months''\<rparr>,
    \<lparr>pattern = seqs [WordBoundary, Lit ''not'', Spaces1,
        alts [seqs [Lit ''a'', Spaces1, Lit ''good''], seqs [Lit ''the'', Spaces1, Lit ''right'']],
        Spaces1, Lit ''time'', WordBoundary],
      category = CALLBACK_REQUEST, baseConfidence = 8 / 10, phraseLabel = ''not the right time''\<rparr>,
    \<lparr>pattern = seqs [WordBoundary, Lit ''maybe'', Spaces1, Opt (seqs [Lit ''next'', Spaces1]),
        alts [Lit ''quarter'', Lit ''year''], WordBoundary],
      category = CALLBACK_REQUEST, baseConfidence = 85 / 100,
      phraseLabel = ''maybe next quarter/year''\<rparr>,

    \<lparr>pattern = seqs [WordBoundary, Lit ''we'', alts [Lit '''ll'', seqs [Spaces1, Lit ''will'']],
        Spaces1, Lit ''get'', Spaces1, Lit ''back'', Spaces1, Lit ''to'', Spaces1, Lit ''you'',
        WordBoundary],
      category = FOLLOWUP_PROMISE, baseConfidence = 65 / 100,
      phraseLabel = ''we'll get back to you''\<rparr>,
    \<lparr>pattern = seqs [WordBoundary, Lit ''i'', alts [Lit '''ll'', seqs [Spaces1, Lit ''will'']],
        Spaces1,
        alts [seqs [Lit ''let'', Spaces1, Lit ''you'', Spaces1, Lit ''know''],
              seqs [Lit ''be'', Spaces1, Lit ''in'', Spaces1, Lit ''touch'']],
        WordBoundary],
      category = FOLLOWUP_PROMISE, baseConfidence = 6 / 10, phraseLabel = ''I'll let you know''\<rparr>,
    \<lparr>pattern = seqs [WordBoundary, Lit ''we'', alts [Lit '''ll'', seqs [Spaces1, Lit ''will'']],
        Spaces1,
        alts [seqs [Lit ''reach'', Spaces1, Lit ''out''], seqs [Lit ''contact'', Spaces1, Lit ''you'']],
        Spaces1, alts [Lit ''when'', Lit ''if''], WordBoundary],
      category = FOLLOWUP_PROMISE, baseConfidence = 7 / 10,
      phraseLabel = ''we'll contact you when...''\<rparr>,

    \<lparr>pattern = seqs [WordBoundary, Lit ''need'', Spaces1, Lit ''to'', Spaces1, Lit ''discuss'', Spaces1,
        Opt (seqs [Lit ''this'', Spaces1]), Lit ''internally'', WordBoundary],
      category = INTERNAL_DISCUSSION, baseConfidence = 7 / 10,
      phraseLabel = ''need to discuss internally''\<rparr>,
    \<lparr>pattern = seqs [WordBoundary, Lit ''have'', Spaces1, Opt (seqs [Lit ''some'', Spaces1]),
        Lit ''internal'', Spaces1,
        alts [seqs [Lit ''discussion'', Opt (Lit ''s'')], seqs [Lit ''meeting'', Opt (Lit ''s'')],
              seqs [Lit ''review'', Opt (Lit ''s'')]],
        WordBoundary],
      category = INTERNAL_DISCUSSION, baseConfidence = 65 / 100,
      phraseLabel = ''internal discussions''\<rparr>,
    \<lparr>pattern = seqs [WordBoundary, alts [Lit ''taking'', Lit ''take''], Spaces1,
        alts [Lit ''it'', Lit ''this''], Spaces1, Lit ''to'', Spaces1,
        Opt (seqs [Lit ''our'', Spaces1]),
        alts [Lit ''internal'', Lit ''leadership'', Lit ''board''], WordBoundary],
      category = INTERNAL_DISCUSSION, baseConfidence = 7 / 10,
      phraseLabel = ''taking to leadership''\<rparr>,
    \<lparr>pattern = seqs [WordBoundary, Lit ''going'', Spaces1, Lit ''through'', Spaces1,
        Opt (seqs [Lit ''our'', Spaces1]), Opt (seqs [Lit ''internal'', Spaces1]), Lit ''process'',
        WordBoundary],
      category = INTERNAL_DISCUSSION, baseConfidence = 6 / 10,
      phraseLabel = ''going through process''\<rparr>]"

subsection \<open>detectPhrases\<close>

definition trim :: "string \<Rightarrow> string" where
  "trim s = rev (dropWhile isSpace (rev (dropWhile isSpace s)))"

definition extractContext :: "string \<Rightarrow> nat \<Rightarrow> nat \<Rightarrow> string" where
  "extractContext txt pos radius =
     (let start = pos - radius;
          end' = min (length txt) (pos + radius);
          c0 = take (end' - start) (drop start txt);
          c1 = (if 0 < start then ''...'' @ c0 else c0);
          c2 = (if end' < length txt then c1 @ ''...'' else c1)
      in trim c2)"

definition patternMatches :: "PhrasePattern \<Rightarrow> string \<Rightarrow> StallPhraseMatch list option" where
  "patternMatches p content =
     map_option
       (map (\<lambda>(i, e).
          \<lparr>phrase = phraseLabel p,
           StallPhraseMatch.category = PhrasePattern.category p,
           matchedText = take (e - i) (drop i content),
           StallPhraseMatch.confidence = PhrasePattern.baseConfidence p,
           position = i,
           context_text = extractContext content i 100\<rparr>))
       (matchAll (pattern p) content 0)"

fun collectMatches :: "PhrasePattern list \<Rightarrow> string \<Rightarrow> StallPhraseMatch list option" where
  "collectMatches [] content = Some []"
| "collectMatches (p # ps) content =
     (case patternMatches p content of
        None \<Rightarrow> None
      | Some ms \<Rightarrow> map_option (\<lambda>rest. ms @ rest) (collectMatches ps content))"

text \<open>\<open>matches.sort((a, b) => a.position - b.position)\<close> is a stable sort by position.\<close>

definition detectPhrasesWith :: "PhrasePattern list \<Rightarrow> string \<Rightarrow> StallPhraseMatch list option" where
  "detectPhrasesWith pats content = map_option (sort_key position) (collectMatches pats content)"

definition detectPhrases :: "string \<Rightarrow> StallPhraseMatch list option" where
  "detectPhrases = detectPhrasesWith STALL_PATTERNS"

text \<open>The text of the end-to-end scenario of the specification.\<close>

definition scenarioText :: string where
  "scenarioText = ''let me think about it and I'll send you pricing next week''"

subsection \<open>analyzeEmail\<close>

datatype EmailDirection = INBOUND | OUTBOUND

text \<open>
  Of an email the service reads the fields below; \<open>from\<close>, \<open>to\<close>, \<open>repId\<close> and
  \<open>repName\<close> are not read.
\<close>

record EmailContent =
  id_email :: string
  dealId :: "string option"
  accountId :: string
  accountName :: string
  sentDate :: int
  subject :: string
  body :: string
  direction :: EmailDirection

record DetectorState =
  signals :: "string \<Rightarrow> StallSignal option"
  dealStatuses :: "string \<Rightarrow> StallStatus option"

definition emptyDetectorState :: DetectorState where
  "emptyDetectorState = \<lparr>DetectorState.signals = Map.empty, dealStatuses = Map.empty\<rparr>"

text \<open>
  A call that does not return a value: the phrase loop does not end, or \<open>reduce\<close> is
  applied to an empty array.
\<close>

datatype failure = NoReturn | TypeError

text \<open>
  \<open>groupMatchesByCategory\<close> builds an object keyed by category; \<open>Object.entries\<close> lists
  its keys in the order of their first insertion.
\<close>

fun addToGroup ::
  "StallPhraseMatch \<Rightarrow> (StallPhraseCategory \<times> StallPhraseMatch list) list
     \<Rightarrow> (StallPhraseCategory \<times> StallPhraseMatch list) list" where
  "addToGroup m [] = [(StallPhraseMatch.category m, [m])]"
| "addToGroup m ((c, ms) # groups) =
     (if c = StallPhraseMatch.category m then (c, ms @ [m]) # groups
      else (c, ms) # addToGroup m groups)"

definition groupMatchesByCategory ::
  "StallPhraseMatch list \<Rightarrow> (StallPhraseCategory \<times> StallPhraseMatch list) list" where
  "groupMatchesByCategory matches = foldl (\<lambda>groups m. addToGroup m groups) [] matches"

definition bestMatchOf :: "StallPhraseMatch \<Rightarrow> StallPhraseMatch list \<Rightarrow> StallPhraseMatch" where
  "bestMatchOf m rest =
     foldl (\<lambda>best current.
              if StallPhraseMatch.confidence best < StallPhraseMatch.confidence current
              then current else best) m rest"

text \<open>
  The loop over the groups of \<open>analyzeEmail\<close>; \<open>uuid k\<close> is the value of the \<open>k\<close>-th
  call of \<open>uuidv4()\<close>.
\<close>

fun emailSignals ::
  "StallDetectorConfig \<Rightarrow> int \<Rightarrow> (nat \<Rightarrow> string) \<Rightarrow> EmailContent \<Rightarrow> string \<Rightarrow> nat
     \<Rightarrow> (StallPhraseCategory \<times> StallPhraseMatch list) list
     \<Rightarrow> StallSignal list \<Rightarrow> DetectorState
     \<Rightarrow> failure + (StallSignal list \<times> DetectorState)" where
  "emailSignals cfg now uuid email' content k [] sigs st = Inr (sigs, st)"
| "emailSignals cfg now uuid email' content k ((c, categoryMatches) # groups) sigs st =
     (case categoryMatches of
        [] \<Rightarrow> Inl TypeError
      | m # rest \<Rightarrow>
          (let bestMatch = bestMatchOf m rest;
               signal =
                 \<lparr>id_signal = uuid k,
                  StallSignal.dealId = (case EmailContent.dealId email' of Some d \<Rightarrow> d | None \<Rightarrow> []),
                  StallSignal.accountId = EmailContent.accountId email',
                  StallSignal.accountName = EmailContent.accountName email',
                  source = StallSignalSource.EMAIL,
                  sourceId = id_email email',
                  sourceTimestamp = sentDate email',
                  phraseMatches = categoryMatches,
                  rawContent = extractContext content (position bestMatch) 200,
                  StallSignal.baseConfidence = StallPhraseMatch.confidence bestMatch,
                  timeDecayedConfidence =
                    calculateTimeDecayedConfidence cfg now
                      (StallPhraseMatch.confidence bestMatch) (sentDate email'),
                  aggregateStrength = calculateAggregateStrength categoryMatches,
                  detectedAt = now,
                  processedAt = None\<rparr>
           in emailSignals cfg now uuid email' content (Suc k) groups (sigs @ [signal])
                (st\<lparr>DetectorState.signals :=
                      (DetectorState.signals st)(id_signal signal \<mapsto> signal)\<rparr>)))"

definition analyzeEmail ::
  "StallDetectorConfig \<Rightarrow> int \<Rightarrow> (nat \<Rightarrow> string) \<Rightarrow> EmailContent \<Rightarrow> DetectorState
     \<Rightarrow> failure + (StallSignal list \<times> DetectorState)" where
  "analyzeEmail cfg now uuid email' st =
     (if direction email' \<noteq> INBOUND then Inr ([], st)
      else
        (let contentToAnalyze = subject email' @ '' '' @ body email' in
         case detectPhrases contentToAnalyze of
           None \<Rightarrow> Inl NoReturn
         | Some matches \<Rightarrow>
             if length matches = 0 then Inr ([], st)
             else emailSignals cfg now uuid email' contentToAnalyze 0
                    (groupMatchesByCategory matches) [] st))"

text \<open>An email whose body holds a stall phrase, for examples.\<close>

definition sampleEmail :: "EmailDirection \<Rightarrow> EmailContent" where
  "sampleEmail d =
     \<lparr>id_email = ''mail-1'', EmailContent.dealId = Some ''deal-1'',
      EmailContent.accountId = ''acct-1'', EmailContent.accountName = ''Acme'',
      sentDate = 0, subject = ''Re: offer'', body = ''Let me think about it.'', direction = d\<rparr>"

section \<open>Properties of the stage engine\<close>

subsection \<open>Rule selection\<close>








subsection \<open>Action routing\<close>

text \<open>
  Claim C2. Under the two ordered thresholds of a configuration (the medium one not above
  the high one), whatever the two switches are: every finite confidence, so every
  confidence in \<open>[0,1]\<close>, is routed to one of the three actions; at or above the high
  threshold the action is \<open>AUTO_UPDATE\<close> when auto-update is enabled and
  \<open>FLAG_FOR_CONFIRMATION\<close> otherwise; from the medium threshold up to the high one it is
  \<open>FLAG_FOR_CONFIRMATION\<close> when flagging is enabled and \<open>NO_ACTION\<close> otherwise; below the
  medium threshold it is \<open>NO_ACTION\<close>.
\<close>

theorem getActionDecision_routing:
  assumes "mediumConfidenceThreshold cfg \<le> highConfidenceThreshold cfg"
  shows "ActionDecision.action (getActionDecision cfg (Fin c)) \<in> {AUTO_UPDATE, FLAG_FOR_CONFIRMATION, NO_ACTION}
   \<and> (highConfidenceThreshold cfg \<le> c \<longrightarrow>
        ActionDecision.action (getActionDecision cfg (Fin c)) =
          (if enableAutoUpdate cfg then AUTO_UPDATE else FLAG_FOR_CONFIRMATION))
   \<and> (mediumConfidenceThreshold cfg \<le> c \<and> c < highConfidenceThreshold cfg \<longrightarrow>
        ActionDecision.action (getActionDecision cfg (Fin c)) =
          (if enableFlagging cfg then FLAG_FOR_CONFIRMATION else NO_ACTION))
   \<and> (c < mediumConfidenceThreshold cfg \<longrightarrow>
        ActionDecision.action (getActionDecision cfg (Fin c)) = NO_ACTION)"
  using assms
  by (cases "ActionDecision.action (getActionDecision cfg (Fin c))") (auto simp: getActionDecision_def)

text \<open>
  The theorem at the default thresholds \<open>0.8\<close> and \<open>0.5\<close>, with both switches on and with
  both switches off.
\<close>

theorem getActionDecision_routing_witness:
  "mediumConfidenceThreshold defaultStageEngineConfig \<le> highConfidenceThreshold defaultStageEngineConfig
   \<and> ActionDecision.action (getActionDecision defaultStageEngineConfig (Fin (9 / 10))) = AUTO_UPDATE
   \<and> ActionDecision.action (getActionDecision defaultStageEngineConfig (Fin (6 / 10))) = FLAG_FOR_CONFIRMATION
   \<and> ActionDecision.action (getActionDecision defaultStageEngineConfig (Fin (2 / 10))) = NO_ACTION
   \<and> ActionDecision.action (getActionDecision
        (defaultStageEngineConfig\<lparr>enableAutoUpdate := False, enableFlagging := False\<rparr>) (Fin (9 / 10)))
        = FLAG_FOR_CONFIRMATION
   \<and> ActionDecision.action (getActionDecision
        (defaultStageEngineConfig\<lparr>enableAutoUpdate := False, enableFlagging := False\<rparr>) (Fin (6 / 10)))
        = NO_ACTION"
proof -
  let ?off = "defaultStageEngineConfig\<lparr>enableAutoUpdate := False, enableFlagging := False\<rparr>"
  have ord: "mediumConfidenceThreshold defaultStageEngineConfig
               \<le> highConfidenceThreshold defaultStageEngineConfig"
    and ord': "mediumConfidenceThreshold ?off \<le> highConfidenceThreshold ?off"
    by (simp_all add: defaultStageEngineConfig_def)
  show ?thesis
    using getActionDecision_routing [OF ord, of "9 / 10"]
        getActionDecision_routing [OF ord, of "6 / 10"]
        getActionDecision_routing [OF ord, of "2 / 10"]
        getActionDecision_routing [OF ord', of "9 / 10"]
        getActionDecision_routing [OF ord', of "6 / 10"]
    by (simp add: defaultStageEngineConfig_def)
qed

text \<open>
  The service does not compare the two thresholds: it tests the high one first. With the
  high threshold at \<open>0.3\<close> and the medium one at \<open>0.5\<close> the confidence \<open>0.4\<close> passes the
  first test.
\<close>

lemma getActionDecision_unordered_thresholds:
  "ActionDecision.action (getActionDecision
       \<lparr>highConfidenceThreshold = 3 / 10, mediumConfidenceThreshold = 5 / 10,
        enableAutoUpdate = True, enableFlagging = True, signalWeights = Map.empty\<rparr>
       (Fin (4 / 10))) = AUTO_UPDATE"
  by (simp add: getActionDecision_def)

subsection \<open>A minimum confidence without relevant signals\<close>

text \<open>
  Claim C7. When a rule has a \<open>minConfidence\<close> and no signal has a type in its required
  or any-of sets, the rule is accepted exactly when it would be accepted without the
  \<open>minConfidence\<close> condition: the condition rejects nothing.
\<close>

theorem minConfidence_vacuous:
  assumes "minConfidence (conditions rule) = Some m"
    and "\<forall>s \<in> set sigs. \<not> optIncludes (requiredSignals (conditions rule)) (CallSignal.type s)
                       \<and> \<not> optIncludes (anySignals (conditions rule)) (CallSignal.type s)"
  shows "evaluateRule rule sigs =
         evaluateRule (rule\<lparr>conditions := (conditions rule)\<lparr>minConfidence := None\<rparr>\<rparr>) sigs"
proof -
  have "relevantSignals (conditions rule) sigs = []"
    using assms(2) by (auto simp: relevantSignals_def filter_empty_conv)
  with assms(1) show ?thesis
    by (simp add: evaluateRule_def Let_def)
qed

theorem minConfidence_vacuous_witness:
  "evaluateRule
     \<lparr>conditions = \<lparr>requiredSignals = None, anySignals = None,
        excludeSignals = Some [CallSignalType.NOT_INTERESTED], minConfidence = Some (99 / 100)\<rparr>,
      result = \<lparr>stage = OutreachStage.WORKING, RuleResult.disposition = None, RuleResult.flags = None,
        RuleResult.suggestedTasks = None\<rparr>,
      StageRule.priority = 10\<rparr>
     [\<lparr>CallSignal.type = LIVE_CONVERSATION, CallSignal.confidence = 1 / 10, evidence = ''hi''\<rparr>]"
  using minConfidence_vacuous [of
     "\<lparr>conditions = \<lparr>requiredSignals = None, anySignals = None,
        excludeSignals = Some [CallSignalType.NOT_INTERESTED], minConfidence = Some (99 / 100)\<rparr>,
      result = \<lparr>stage = OutreachStage.WORKING, RuleResult.disposition = None, RuleResult.flags = None,
        RuleResult.suggestedTasks = None\<rparr>,
      StageRule.priority = 10\<rparr>" "99 / 100"
     "[\<lparr>CallSignal.type = LIVE_CONVERSATION, CallSignal.confidence = 1 / 10, evidence = ''hi''\<rparr>]"]
  by (simp add: optIncludes_def evaluateRule_def)

section \<open>Properties of the stall detector\<close>

subsection \<open>Time decay\<close>

text \<open>A product with a positive factor is the product of the reals.\<close>

lemma js_mul_Fin_pos: "0 < f \<Longrightarrow> js_mul (Fin b) (Fin f) = Fin (b * f)"
  by auto







text \<open>
  What the service computes for a half-life outside those of the theorem. For \<open>NaN\<close> and
  for a zero of either sign the quotient at age 0 is \<open>NaN\<close>, and so is the result; one
  hour later a base of 1 has decayed to 0 under the half-life \<open>+0\<close> and has grown to
  \<open>Infinity\<close> under \<open>-0\<close>. Under a half-life of \<open>-48\<close> hours a base of 1 gives 1 at age 0
  and 2 at age 48 hours.
\<close>

lemma timeDecay_unchecked_half_life:
  "calculateTimeDecayedConfidence (DEFAULT_CONFIG\<lparr>timeDecayHalfLifeHours := NaN\<rparr>) 0 1 0 = NaN
   \<and> calculateTimeDecayedConfidence (DEFAULT_CONFIG\<lparr>timeDecayHalfLifeHours := Fin 0\<rparr>) 0 1 0 = NaN
   \<and> calculateTimeDecayedConfidence (DEFAULT_CONFIG\<lparr>timeDecayHalfLifeHours := NegZero\<rparr>) 0 1 0 = NaN
   \<and> calculateTimeDecayedConfidence (DEFAULT_CONFIG\<lparr>timeDecayHalfLifeHours := Fin 0\<rparr>) 3600000 1 0 = Fin 0
   \<and> calculateTimeDecayedConfidence (DEFAULT_CONFIG\<lparr>timeDecayHalfLifeHours := NegZero\<rparr>) 3600000 1 0 = PosInf
   \<and> calculateTimeDecayedConfidence (DEFAULT_CONFIG\<lparr>timeDecayHalfLifeHours := Fin (- 48)\<rparr>) 0 1 0 = Fin 1
   \<and> calculateTimeDecayedConfidence (DEFAULT_CONFIG\<lparr>timeDecayHalfLifeHours := Fin (- 48)\<rparr>) 172800000 1 0 = Fin 2"
  by (simp add: calculateTimeDecayedConfidence_def DEFAULT_CONFIG_def hoursBetween_def powr_minus)

subsection \<open>Stall score\<close>

lemma latestOf_fold:
  "sourceTimestamp (latestOf s0 rest) = fold max (map sourceTimestamp rest) (sourceTimestamp s0)"
proof (induction rest arbitrary: s0)
  case Nil
  then show ?case by (simp add: latestOf_def)
next
  case (Cons x xs)
  have "latestOf s0 (x # xs) = latestOf (if sourceTimestamp s0 < sourceTimestamp x then x else s0) xs"
    by (simp add: latestOf_def)
  then show ?case
    using Cons.IH [of "if sourceTimestamp s0 < sourceTimestamp x then x else s0"]
    by (simp add: max_def)
qed

lemma latestOf_timestamp:
  "sourceTimestamp (latestOf s0 rest) = Max (set (map sourceTimestamp (s0 # rest)))"
  by (simp add: latestOf_fold Max.set_eq_fold [symmetric] del: set_map)

text \<open>The weighted confidences of a list of signals, and the age of its most recent one.\<close>

lemma score_js_formula:
  assumes "sigs \<noteq> []"
  shows "calculateStallScore now sigs =
     js_min (Fin 100)
       (js_add (js_sum (map (\<lambda>s. js_mul (timeDecayedConfidence s) (Fin 30)) sigs))
          (Fin (recencyBonusFor (hoursBetween now (Max (set (map sourceTimestamp sigs)))))))"
proof -
  from assms obtain s0 rest where sr: "sigs = s0 # rest" by (cases sigs) auto
  have ts: "sourceTimestamp (latestOf s0 rest) = Max (set (map sourceTimestamp sigs))"
    by (simp add: latestOf_timestamp sr)
  have tot: "foldl (\<lambda>sum signal. js_add sum (js_mul (timeDecayedConfidence signal) (Fin 30))) (Fin 0) sigs
     = js_sum (map (\<lambda>s. js_mul (timeDecayedConfidence s) (Fin 30)) sigs)"
    by (simp add: js_sum_def foldl_map)
  have "calculateStallScore now sigs =
      js_min (Fin 100) (js_add (foldl (\<lambda>sum signal. js_add sum (js_mul (timeDecayedConfidence signal) (Fin 30))) (Fin 0) sigs)
         (Fin (recencyBonusFor (hoursBetween now (sourceTimestamp (latestOf s0 rest))))))"
    by (simp add: calculateStallScore_def sr recencyBonusFor_def Let_def)
  then show ?thesis
    by (simp only: tot ts)
qed

lemma weighted_finite:
  "js_finite x \<Longrightarrow> js_add (Fin a) (js_mul x (Fin 30)) = Fin (a + finVal x * 30)"
  by (cases x) (simp_all add: js_mul_Fin_pos del: js_mul.simps(3))

lemma foldl_weighted_finite:
  "\<forall>s \<in> set sigs. js_finite (timeDecayedConfidence s) \<Longrightarrow>
   foldl js_add (Fin a) (map (\<lambda>s. js_mul (timeDecayedConfidence s) (Fin 30)) sigs)
     = Fin (a + (\<Sum>s\<leftarrow>sigs. finVal (timeDecayedConfidence s) * 30))"
proof (induction sigs arbitrary: a)
  case Nil
  then show ?case by simp
next
  case (Cons s sigs)
  then show ?case
    by (simp add: weighted_finite add.assoc del: js_add.simps js_mul.simps)
qed

lemma score_formula:
  assumes "\<forall>s \<in> set sigs. js_finite (timeDecayedConfidence s)" and "sigs \<noteq> []"
  shows "calculateStallScore now sigs =
     Fin (min 100 ((\<Sum>s\<leftarrow>sigs. finVal (timeDecayedConfidence s) * 30)
          + recencyBonusFor (hoursBetween now (Max (set (map sourceTimestamp sigs))))))"
  using foldl_weighted_finite [OF assms(1), of 0]
  by (simp add: score_js_formula [OF assms(2)] js_sum_def)

lemma recencyBonusFor_antimono: "h' \<le> h \<Longrightarrow> recencyBonusFor h \<le> recencyBonusFor h'"
  by (simp add: recencyBonusFor_def)

lemma recencyBonusFor_range: "0 \<le> recencyBonusFor h \<and> recencyBonusFor h \<le> 10"
  by (simp add: recencyBonusFor_def)

lemma hoursBetween_antimono: "t \<le> t' \<Longrightarrow> hoursBetween now t' \<le> hoursBetween now t"
  by (simp add: hoursBetween_def divide_right_mono)

text \<open>The cap: whatever the sum is, the minimum with 100 is \<open>NaN\<close> or at most 100.\<close>

lemma js_min_cap: "js_min (Fin 100) x = NaN \<or> js_le (js_min (Fin 100) x) (Fin 100)"
  by (cases x) simp_all

lemma score_cap:
  "calculateStallScore now sigs = NaN \<or> js_le (calculateStallScore now sigs) (Fin 100)"
proof (cases "sigs = []")
  case True
  then show ?thesis by (simp add: calculateStallScore_def)
next
  case False
  show ?thesis
    unfolding score_js_formula [OF False] by (rule js_min_cap)
qed

text \<open>Signals whose decayed confidence is not below zero: the sum is not, either.\<close>

lemma weighted_nonneg:
  "js_ge x 0 \<Longrightarrow> 0 \<le> a \<Longrightarrow>
   (\<exists>a'. js_add (Fin a) (js_mul x (Fin 30)) = Fin a' \<and> 0 \<le> a')
   \<or> js_add (Fin a) (js_mul x (Fin 30)) = PosInf"
  by (cases x) (simp_all add: js_mul_Fin_pos del: js_mul.simps(3))

lemma weighted_PosInf:
  "js_ge x 0 \<Longrightarrow> js_add PosInf (js_mul x (Fin 30)) = PosInf"
  by (cases x) (simp_all add: js_mul_Fin_pos del: js_mul.simps(3))

lemma foldl_weighted_PosInf:
  "\<forall>s \<in> set sigs. js_ge (timeDecayedConfidence s) 0 \<Longrightarrow>
   foldl js_add PosInf (map (\<lambda>s. js_mul (timeDecayedConfidence s) (Fin 30)) sigs) = PosInf"
  by (induction sigs) (simp_all add: weighted_PosInf del: js_add.simps js_mul.simps)

lemma foldl_weighted_nonneg:
  "\<forall>s \<in> set sigs. js_ge (timeDecayedConfidence s) 0 \<Longrightarrow> 0 \<le> a \<Longrightarrow>
   (\<exists>a'. foldl js_add (Fin a) (map (\<lambda>s. js_mul (timeDecayedConfidence s) (Fin 30)) sigs) = Fin a'
          \<and> 0 \<le> a')
   \<or> foldl js_add (Fin a) (map (\<lambda>s. js_mul (timeDecayedConfidence s) (Fin 30)) sigs) = PosInf"
proof (induction sigs arbitrary: a)
  case Nil
  then show ?case by simp
next
  case (Cons s sigs)
  from Cons.prems have x: "js_ge (timeDecayedConfidence s) 0"
    and rest: "\<forall>s \<in> set sigs. js_ge (timeDecayedConfidence s) 0" by simp_all
  from weighted_nonneg [OF x Cons.prems(2)] show ?case
  proof
    assume "\<exists>a'. js_add (Fin a) (js_mul (timeDecayedConfidence s) (Fin 30)) = Fin a' \<and> 0 \<le> a'"
    then obtain a' where a': "js_add (Fin a) (js_mul (timeDecayedConfidence s) (Fin 30)) = Fin a'"
      "0 \<le> a'" by blast
    show ?thesis
      using Cons.IH [OF rest a'(2)] a'(1) by (simp del: js_add.simps js_mul.simps)
  next
    assume "js_add (Fin a) (js_mul (timeDecayedConfidence s) (Fin 30)) = PosInf"
    then show ?thesis
      using foldl_weighted_PosInf [OF rest] by (simp del: js_add.simps js_mul.simps)
  qed
qed

lemma score_range:
  assumes "\<forall>s \<in> set sigs. js_ge (timeDecayedConfidence s) 0"
  shows "\<exists>v. calculateStallScore now sigs = Fin v \<and> 0 \<le> v \<and> v \<le> 100"
proof (cases "sigs = []")
  case True
  then show ?thesis by (simp add: calculateStallScore_def)
next
  case False
  let ?b = "recencyBonusFor (hoursBetween now (Max (set (map sourceTimestamp sigs))))"
  have b: "0 \<le> ?b" using recencyBonusFor_range by simp
  have "(\<exists>a'. foldl js_add (Fin 0) (map (\<lambda>s. js_mul (timeDecayedConfidence s) (Fin 30)) sigs) = Fin a'
          \<and> 0 \<le> a')
     \<or> foldl js_add (Fin 0) (map (\<lambda>s. js_mul (timeDecayedConfidence s) (Fin 30)) sigs) = PosInf"
    using foldl_weighted_nonneg [OF assms, of 0] by simp
  then show ?thesis
  proof
    assume "\<exists>a'. foldl js_add (Fin 0) (map (\<lambda>s. js_mul (timeDecayedConfidence s) (Fin 30)) sigs) = Fin a'
          \<and> 0 \<le> a'"
    then obtain a' where "js_sum (map (\<lambda>s. js_mul (timeDecayedConfidence s) (Fin 30)) sigs) = Fin a'"
      "0 \<le> a'" by (auto simp: js_sum_def)
    then show ?thesis
      using b by (simp add: score_js_formula [OF False])
  next
    assume "foldl js_add (Fin 0) (map (\<lambda>s. js_mul (timeDecayedConfidence s) (Fin 30)) sigs) = PosInf"
    then have "js_sum (map (\<lambda>s. js_mul (timeDecayedConfidence s) (Fin 30)) sigs) = PosInf"
      by (simp add: js_sum_def)
    then show ?thesis
      by (simp add: score_js_formula [OF False])
  qed
qed

text \<open>Inserting a term into a sum: the order of the additions does not matter.\<close>

lemma js_add_right_commute: "js_add (js_add a t) y = js_add (js_add a y) t"
  by (cases a; cases t; cases y) simp_all

lemma foldl_js_add_start: "foldl js_add (js_add a t) ys = js_add (foldl js_add a ys) t"
proof (induction ys arbitrary: a)
  case Nil
  then show ?case by simp
next
  case (Cons y ys)
  show ?case
    using Cons.IH [of "js_add a y"] by (simp add: js_add_right_commute [of a t y] del: js_add.simps)
qed

lemma js_sum_insert: "js_sum (xs @ t # ys) = js_add (js_sum (xs @ ys)) t"
  by (simp add: js_sum_def foldl_js_add_start del: js_add.simps)

lemma capped_mono:
  assumes "js_min (Fin 100) (js_add (js_add T (js_mul x (Fin 30))) (Fin b')) \<noteq> NaN"
    and "js_ge x 0" and "b \<le> b'"
  shows "js_le (js_min (Fin 100) (js_add T (Fin b)))
           (js_min (Fin 100) (js_add (js_add T (js_mul x (Fin 30))) (Fin b')))"
proof -
  from assms(2) have "js_mul x (Fin 30) = NegZero \<or> js_mul x (Fin 30) = PosInf
      \<or> (\<exists>c. js_mul x (Fin 30) = Fin c \<and> 0 \<le> c)"
    by (cases x) (simp_all add: js_mul_Fin_pos del: js_mul.simps(3))
  then show ?thesis
    using assms(1,3) by (cases T) auto
qed

lemma score_insert_mono:
  assumes new: "js_ge (timeDecayedConfidence s') 0"
    and num: "calculateStallScore now (xs @ s' # ys) \<noteq> NaN"
  shows "js_le (calculateStallScore now (xs @ ys)) (calculateStallScore now (xs @ s' # ys))"
proof (cases "xs @ ys = []")
  case True
  from new have "\<forall>s \<in> set [s']. js_ge (timeDecayedConfidence s) 0" by simp
  from score_range [OF this, of now]
  obtain v where "calculateStallScore now [s'] = Fin v" "0 \<le> v" by blast
  then show ?thesis using True by (simp add: calculateStallScore_def)
next
  case False
  have ne: "xs @ s' # ys \<noteq> []" by simp
  let ?w = "\<lambda>s. js_mul (timeDecayedConfidence s) (Fin 30)"
  let ?b = "recencyBonusFor (hoursBetween now (Max (set (map sourceTimestamp (xs @ ys)))))"
  let ?b' = "recencyBonusFor (hoursBetween now (Max (set (map sourceTimestamp (xs @ s' # ys)))))"
  have "Max (set (map sourceTimestamp (xs @ ys)))
          \<le> Max (set (map sourceTimestamp (xs @ s' # ys)))"
    using False by (intro Max_mono) auto
  then have bb: "?b \<le> ?b'"
    by (intro recencyBonusFor_antimono hoursBetween_antimono)
  have ins: "js_sum (map ?w (xs @ s' # ys)) = js_add (js_sum (map ?w (xs @ ys))) (?w s')"
    using js_sum_insert [of "map ?w xs" "?w s'" "map ?w ys"] by simp
  have "js_min (Fin 100) (js_add (js_add (js_sum (map ?w (xs @ ys))) (?w s')) (Fin ?b')) \<noteq> NaN"
    using num unfolding score_js_formula [OF ne] ins .
  from capped_mono [OF this new bb] show ?thesis
    by (simp only: score_js_formula [OF False] score_js_formula [OF ne] ins)
qed

text \<open>
  Claim C4, amended. The score of the empty list is 0. The score of a list of signals is
  the sum, as the service adds it up, of \<open>timeDecayedConfidence * 30\<close> over them plus the
  recency bonus (10 when the most recent signal is less than 24 hours old, 5 when less
  than 48, else 0), capped at 100; for decayed confidences that are finite numbers this is
  the sum of reals. The score is never above 100: it is \<open>NaN\<close> or at most 100. It lies
  between 0 and 100 when no decayed confidence is below 0 or \<open>NaN\<close>. Inserting anywhere in
  the list a further signal whose decayed confidence is not below 0 does not lower the
  score, as long as the score is a number.
\<close>

theorem stallScore_properties:
  "calculateStallScore now [] = Fin 0
   \<and> (sigs \<noteq> [] \<longrightarrow>
        calculateStallScore now sigs =
          js_min (Fin 100)
            (js_add (js_sum (map (\<lambda>s. js_mul (timeDecayedConfidence s) (Fin 30)) sigs))
               (Fin (recencyBonusFor (hoursBetween now (Max (set (map sourceTimestamp sigs))))))))
   \<and> (sigs \<noteq> [] \<and> (\<forall>s \<in> set sigs. js_finite (timeDecayedConfidence s)) \<longrightarrow>
        calculateStallScore now sigs =
          Fin (min 100 ((\<Sum>s\<leftarrow>sigs. finVal (timeDecayedConfidence s) * 30)
               + recencyBonusFor (hoursBetween now (Max (set (map sourceTimestamp sigs)))))))
   \<and> (calculateStallScore now sigs = NaN \<or> js_le (calculateStallScore now sigs) (Fin 100))
   \<and> ((\<forall>s \<in> set sigs. js_ge (timeDecayedConfidence s) 0) \<longrightarrow>
        (\<exists>v. calculateStallScore now sigs = Fin v \<and> 0 \<le> v \<and> v \<le> 100))
   \<and> (\<forall>xs ys s'. sigs = xs @ ys \<and> js_ge (timeDecayedConfidence s') 0
          \<and> calculateStallScore now (xs @ s' # ys) \<noteq> NaN \<longrightarrow>
        js_le (calculateStallScore now sigs) (calculateStallScore now (xs @ s' # ys)))"
proof -
  have a: "calculateStallScore now [] = Fin 0"
    by (simp add: calculateStallScore_def)
  show ?thesis
    using a score_js_formula [of sigs now] score_formula [of sigs now] score_cap [of now sigs]
      score_range [of sigs now] score_insert_mono [of _ now]
    by blast
qed

text \<open>
  The score is capped from above only. One hour after a single signal, a decayed
  confidence of \<open>-1\<close> gives the score \<open>-20\<close>, \<open>NaN\<close> gives \<open>NaN\<close> and \<open>-Infinity\<close> gives
  \<open>-Infinity\<close>; and a score that is \<open>NaN\<close> stays \<open>NaN\<close> when a signal of positive
  confidence is added, so that the comparison of the two scores fails.
\<close>

theorem stallScore_counterexample:
  "calculateStallScore 3600000 [sampleSignal ''s1'' (Fin (- 1)) 0] = Fin (- 20)
   \<and> calculateStallScore 3600000 [sampleSignal ''s1'' NaN 0] = NaN
   \<and> calculateStallScore 3600000 [sampleSignal ''s1'' NegInf 0] = NegInf
   \<and> \<not> js_le (calculateStallScore 3600000 [sampleSignal ''s1'' NaN 0])
          (calculateStallScore 3600000
             [sampleSignal ''s1'' NaN 0, sampleSignal ''s2'' (Fin (5 / 10)) 1000])"
  by (simp add: calculateStallScore_def sampleSignal_def latestOf_def hoursBetween_def)

text \<open>
  The theorem for one signal of decayed confidence 0.6, one hour old, and for the list
  with a second signal of decayed confidence 0.5 added: the scores are 28 and 43.
\<close>

theorem stallScore_properties_witness:
  "list_all (\<lambda>s. js_finite (timeDecayedConfidence s) \<and> js_ge (timeDecayedConfidence s) 0)
     [sampleSignal ''s1'' (Fin (6 / 10)) 0]
   \<and> js_ge (timeDecayedConfidence (sampleSignal ''s2'' (Fin (5 / 10)) 1000)) 0
   \<and> calculateStallScore 3600000 [sampleSignal ''s1'' (Fin (6 / 10)) 0] = Fin 28
   \<and> calculateStallScore 3600000
        [sampleSignal ''s1'' (Fin (6 / 10)) 0, sampleSignal ''s2'' (Fin (5 / 10)) 1000] = Fin 43
   \<and> js_le (calculateStallScore 3600000 [sampleSignal ''s1'' (Fin (6 / 10)) 0])
        (calculateStallScore 3600000
           [sampleSignal ''s1'' (Fin (6 / 10)) 0, sampleSignal ''s2'' (Fin (5 / 10)) 1000])"
proof -
  let ?s1 = "sampleSignal ''s1'' (Fin (6 / 10)) 0"
  let ?s2 = "sampleSignal ''s2'' (Fin (5 / 10)) 1000"
  have fin1: "\<forall>s \<in> set [?s1]. js_finite (timeDecayedConfidence s)"
    and pos1: "\<forall>s \<in> set [?s1]. js_ge (timeDecayedConfidence s) 0"
    and fin2: "\<forall>s \<in> set [?s1, ?s2]. js_finite (timeDecayedConfidence s)"
    and new: "js_ge (timeDecayedConfidence ?s2) 0"
    by (simp_all add: sampleSignal_def)
  have "calculateStallScore 3600000 [?s1] =
            Fin (min 100 ((\<Sum>s\<leftarrow>[?s1]. finVal (timeDecayedConfidence s) * 30)
                 + recencyBonusFor (hoursBetween 3600000 (Max (set (map sourceTimestamp [?s1]))))))"
    using stallScore_properties [of 3600000 "[?s1]"] fin1 by blast
  then have v: "calculateStallScore 3600000 [?s1] = Fin 28"
    by (simp add: sampleSignal_def recencyBonusFor_def hoursBetween_def)
  have "calculateStallScore 3600000 [?s1, ?s2] =
            Fin (min 100 ((\<Sum>s\<leftarrow>[?s1, ?s2]. finVal (timeDecayedConfidence s) * 30)
                 + recencyBonusFor (hoursBetween 3600000 (Max (set (map sourceTimestamp [?s1, ?s2]))))))"
    using stallScore_properties [of 3600000 "[?s1, ?s2]"] fin2 by blast
  then have v2: "calculateStallScore 3600000 [?s1, ?s2] = Fin 43"
    by (simp add: sampleSignal_def recencyBonusFor_def hoursBetween_def)
  have "\<exists>v. calculateStallScore 3600000 [?s1] = Fin v \<and> 0 \<le> v \<and> v \<le> 100"
    using stallScore_properties [of 3600000 "[?s1]"] pos1 by blast
  have "\<forall>xs ys s'. [?s1] = xs @ ys \<and> js_ge (timeDecayedConfidence s') 0
          \<and> calculateStallScore 3600000 (xs @ s' # ys) \<noteq> NaN \<longrightarrow>
          js_le (calculateStallScore 3600000 [?s1]) (calculateStallScore 3600000 (xs @ s' # ys))"
    using stallScore_properties [of 3600000 "[?s1]"] by blast
  then have "[?s1] = [?s1] @ [] \<and> js_ge (timeDecayedConfidence ?s2) 0
          \<and> calculateStallScore 3600000 ([?s1] @ ?s2 # []) \<noteq> NaN \<longrightarrow>
          js_le (calculateStallScore 3600000 [?s1]) (calculateStallScore 3600000 ([?s1] @ ?s2 # []))"
    by blast
  with new v2 have m: "js_le (calculateStallScore 3600000 [?s1]) (calculateStallScore 3600000 [?s1, ?s2])"
    by simp
  show ?thesis using fin1 pos1 new v v2 m by (simp add: list_all_iff)
qed

section \<open>Properties of the audit log\<close>

lemma addEntry_entries:
  "entries (snd (addEntry cfg ok e st)) = (entries st)(id_entry e \<mapsto> e)"
  by (simp add: addEntry_def Let_def split: option.splits)

lemma addEntry_byCall:
  "entriesByCallId (snd (addEntry cfg ok e st)) =
     (entriesByCallId st)(AuditEntry.callId e \<mapsto>
        (case entriesByCallId st (AuditEntry.callId e) of Some l \<Rightarrow> l | None \<Rightarrow> []) @ [id_entry e])"
  by (simp add: addEntry_def Let_def split: option.splits)

lemma addEntry_byProspect:
  "entriesByProspectId (snd (addEntry cfg ok e st)) =
     (case prospectId e of
        None \<Rightarrow> entriesByProspectId st
      | Some p \<Rightarrow>
          if p = 0 then entriesByProspectId st
          else (entriesByProspectId st)(p \<mapsto>
                 (case entriesByProspectId st p of Some l \<Rightarrow> l | None \<Rightarrow> []) @ [id_entry e]))"
  by (simp add: addEntry_def Let_def split: option.splits)

lemma rollback_success:
  assumes "enableRollback cfg" "entries st a = Some e"
    "AuditEntry.action e = STAGE_CHANGE \<or> AuditEntry.action e = DISPOSITION_SET"
  shows "rollback cfg now newId ok a actor st =
     (\<lparr>success = True, auditId = newId, originalAuditId = a,
       message = ''Rollback recorded successfully'',
       RollbackResult.previousValue = newValue e,
       restoredValue = AuditEntry.previousValue e\<rparr>,
      snd (addEntry cfg ok (rollbackEntryOf now newId a actor e) st))"
  using assms by (auto simp: rollback_def rollbackEntryOf_def Let_def split: prod.splits)

lemma sampleAuditState_entries:
  "entries (sampleAuditState cfg a) = [''e1'' \<mapsto> sampleEntry ''e1'' a]"
  by (simp add: sampleAuditState_def addEntry_entries emptyAuditState_def sampleEntry_def)

text \<open>
  Claim C5, amended. When rollback is enabled in the configuration (the default):
  \<open>rollback\<close> of an id without an entry fails with the not-found result; \<open>rollback\<close> of an
  entry whose action is neither \<open>STAGE_CHANGE\<close> nor \<open>DISPOSITION_SET\<close> fails with the
  not-rollbackable result; both leave the state as it was. Otherwise, the new id being
  fresh, it stores exactly one new entry, under the new id, with action \<open>ROLLBACK\<close>, with
  the original entry's \<open>newValue\<close> as \<open>previousValue\<close> and its \<open>previousValue\<close> as
  \<open>newValue\<close>, with \<open>rollbackOf\<close> the original id; it appends the new id to the list of
  the original entry's call; and it returns the original \<open>previousValue\<close> as the value to
  restore.
\<close>

theorem rollback_when_enabled:
  assumes "enableRollback cfg"
  shows "(entries st a = None \<longrightarrow>
           rollback cfg now newId ok a actor st =
             (\<lparr>success = False, auditId = [], originalAuditId = a,
               message = ''Audit entry not found'',
               RollbackResult.previousValue = None, restoredValue = None\<rparr>, st))
     \<and> (\<forall>e. entries st a = Some e \<and> AuditEntry.action e \<noteq> STAGE_CHANGE
              \<and> AuditEntry.action e \<noteq> DISPOSITION_SET \<longrightarrow>
           rollback cfg now newId ok a actor st =
             (\<lparr>success = False, auditId = [], originalAuditId = a,
               message = ''Cannot rollback action type: '' @ actionName (AuditEntry.action e),
               RollbackResult.previousValue = None, restoredValue = None\<rparr>, st))
     \<and> (\<forall>e. entries st a = Some e
              \<and> (AuditEntry.action e = STAGE_CHANGE \<or> AuditEntry.action e = DISPOSITION_SET)
              \<and> entries st newId = None \<longrightarrow>
           success (fst (rollback cfg now newId ok a actor st))
           \<and> auditId (fst (rollback cfg now newId ok a actor st)) = newId
           \<and> restoredValue (fst (rollback cfg now newId ok a actor st)) = AuditEntry.previousValue e
           \<and> (\<exists>rb. entries (snd (rollback cfg now newId ok a actor st)) = (entries st)(newId \<mapsto> rb)
                  \<and> id_entry rb = newId
                  \<and> AuditEntry.action rb = ROLLBACK
                  \<and> AuditEntry.previousValue rb = newValue e
                  \<and> newValue rb = AuditEntry.previousValue e
                  \<and> rollbackOf rb = Some a
                  \<and> confirmedBy rb = Some actor)
           \<and> dom (entries (snd (rollback cfg now newId ok a actor st))) = insert newId (dom (entries st))
           \<and> newId \<notin> dom (entries st)
           \<and> (\<forall>k. k \<noteq> newId \<longrightarrow> entries (snd (rollback cfg now newId ok a actor st)) k = entries st k)
           \<and> entriesByCallId (snd (rollback cfg now newId ok a actor st)) =
               (entriesByCallId st)(AuditEntry.callId e \<mapsto>
                 (case entriesByCallId st (AuditEntry.callId e) of Some l \<Rightarrow> l | None \<Rightarrow> []) @ [newId]))"
proof -
  have nf: "rollback cfg now newId ok a actor st =
             (\<lparr>success = False, auditId = [], originalAuditId = a,
               message = ''Audit entry not found'',
               RollbackResult.previousValue = None, restoredValue = None\<rparr>, st)"
    if "entries st a = None"
    using that assms by (simp add: rollback_def)
  have nr: "rollback cfg now newId ok a actor st =
             (\<lparr>success = False, auditId = [], originalAuditId = a,
               message = ''Cannot rollback action type: '' @ actionName (AuditEntry.action e),
               RollbackResult.previousValue = None, restoredValue = None\<rparr>, st)"
    if "entries st a = Some e" "AuditEntry.action e \<noteq> STAGE_CHANGE"
       "AuditEntry.action e \<noteq> DISPOSITION_SET" for e
    using that assms by (simp add: rollback_def)
  have ok: "success (fst (rollback cfg now newId ok a actor st))
           \<and> auditId (fst (rollback cfg now newId ok a actor st)) = newId
           \<and> restoredValue (fst (rollback cfg now newId ok a actor st)) = AuditEntry.previousValue e
           \<and> (\<exists>rb. entries (snd (rollback cfg now newId ok a actor st)) = (entries st)(newId \<mapsto> rb)
                  \<and> id_entry rb = newId
                  \<and> AuditEntry.action rb = ROLLBACK
                  \<and> AuditEntry.previousValue rb = newValue e
                  \<and> newValue rb = AuditEntry.previousValue e
                  \<and> rollbackOf rb = Some a
                  \<and> confirmedBy rb = Some actor)
           \<and> dom (entries (snd (rollback cfg now newId ok a actor st))) = insert newId (dom (entries st))
           \<and> newId \<notin> dom (entries st)
           \<and> (\<forall>k. k \<noteq> newId \<longrightarrow> entries (snd (rollback cfg now newId ok a actor st)) k = entries st k)
           \<and> entriesByCallId (snd (rollback cfg now newId ok a actor st)) =
               (entriesByCallId st)(AuditEntry.callId e \<mapsto>
                 (case entriesByCallId st (AuditEntry.callId e) of Some l \<Rightarrow> l | None \<Rightarrow> []) @ [newId])"
    if "entries st a = Some e"
       "AuditEntry.action e = STAGE_CHANGE \<or> AuditEntry.action e = DISPOSITION_SET"
       "entries st newId = None" for e
  proof -
    let ?rb = "rollbackEntryOf now newId a actor e"
    have r: "rollback cfg now newId ok a actor st =
     (\<lparr>success = True, auditId = newId, originalAuditId = a,
       message = ''Rollback recorded successfully'',
       RollbackResult.previousValue = newValue e,
       restoredValue = AuditEntry.previousValue e\<rparr>,
      snd (addEntry cfg ok ?rb st))"
      using rollback_success [OF assms that(1) that(2)] .
    have id: "id_entry ?rb = newId" and c: "AuditEntry.callId ?rb = AuditEntry.callId e"
      by (simp_all add: rollbackEntryOf_def)
    have e: "entries (snd (rollback cfg now newId ok a actor st)) = (entries st)(newId \<mapsto> ?rb)"
      by (simp add: r addEntry_entries id)
    have f: "AuditEntry.action ?rb = ROLLBACK \<and> AuditEntry.previousValue ?rb = newValue e
        \<and> newValue ?rb = AuditEntry.previousValue e \<and> rollbackOf ?rb = Some a
        \<and> confirmedBy ?rb = Some actor"
      by (simp add: rollbackEntryOf_def)
    have b: "entriesByCallId (snd (rollback cfg now newId ok a actor st)) =
               (entriesByCallId st)(AuditEntry.callId e \<mapsto>
                 (case entriesByCallId st (AuditEntry.callId e) of Some l \<Rightarrow> l | None \<Rightarrow> []) @ [newId])"
      by (simp add: r addEntry_byCall id c)
    show ?thesis
      using e f b id that(3) by (auto simp: r)
  qed
  show ?thesis using nf nr ok by blast
qed

text \<open>
  The theorem under the default configuration, on a store with one entry \<open>e1\<close>: an
  unknown id, a \<open>NOTE_ADDED\<close> entry, and a \<open>STAGE_CHANGE\<close> entry from \<open>WORKING\<close> to
  \<open>QUALIFIED\<close>, whose rollback returns \<open>WORKING\<close> and adds the entry \<open>r1\<close>.
\<close>

theorem rollback_when_enabled_witness:
  "enableRollback (AuditService_config None None None None)
   \<and> fst (rollback (AuditService_config None None None None) 2000 ''r1'' True ''nope'' ''alice''
        (sampleAuditState (AuditService_config None None None None) STAGE_CHANGE))
      = \<lparr>success = False, auditId = [], originalAuditId = ''nope'',
          message = ''Audit entry not found'',
          RollbackResult.previousValue = None, restoredValue = None\<rparr>
   \<and> message (fst (rollback (AuditService_config None None None None) 2000 ''r1'' True ''e1'' ''alice''
        (sampleAuditState (AuditService_config None None None None) NOTE_ADDED)))
      = ''Cannot rollback action type: NOTE_ADDED''
   \<and> restoredValue (fst (rollback (AuditService_config None None None None) 2000 ''r1'' True ''e1'' ''alice''
        (sampleAuditState (AuditService_config None None None None) STAGE_CHANGE)))
      = Some ''WORKING''
   \<and> dom (entries (snd (rollback (AuditService_config None None None None) 2000 ''r1'' True ''e1'' ''alice''
        (sampleAuditState (AuditService_config None None None None) STAGE_CHANGE))))
      = {''r1'', ''e1''}"
proof -
  let ?cfg = "AuditService_config None None None None"
  have en: "enableRollback ?cfg" by (simp add: AuditService_config_def)
  note th = rollback_when_enabled [OF en, of _ _ 2000 "''r1''" True "''alice''"]
  have a0: "entries (sampleAuditState ?cfg STAGE_CHANGE) ''nope'' = None"
    by (simp add: sampleAuditState_entries)
  have a: "rollback ?cfg 2000 ''r1'' True ''nope'' ''alice'' (sampleAuditState ?cfg STAGE_CHANGE)
      = (\<lparr>success = False, auditId = [], originalAuditId = ''nope'',
          message = ''Audit entry not found'',
          RollbackResult.previousValue = None, restoredValue = None\<rparr>,
         sampleAuditState ?cfg STAGE_CHANGE)"
    using th [of "sampleAuditState ?cfg STAGE_CHANGE" "''nope''"] a0 by blast
  have b0: "entries (sampleAuditState ?cfg NOTE_ADDED) ''e1'' = Some (sampleEntry ''e1'' NOTE_ADDED)
       \<and> AuditEntry.action (sampleEntry ''e1'' NOTE_ADDED) \<noteq> STAGE_CHANGE
       \<and> AuditEntry.action (sampleEntry ''e1'' NOTE_ADDED) \<noteq> DISPOSITION_SET"
    by (simp add: sampleAuditState_entries sampleEntry_def)
  have b: "rollback ?cfg 2000 ''r1'' True ''e1'' ''alice'' (sampleAuditState ?cfg NOTE_ADDED)
      = (\<lparr>success = False, auditId = [], originalAuditId = ''e1'',
          message = ''Cannot rollback action type: '' @ actionName (AuditEntry.action (sampleEntry ''e1'' NOTE_ADDED)),
          RollbackResult.previousValue = None, restoredValue = None\<rparr>,
         sampleAuditState ?cfg NOTE_ADDED)"
    using th [of "sampleAuditState ?cfg NOTE_ADDED" "''e1''"] b0 by blast
  have c0: "entries (sampleAuditState ?cfg STAGE_CHANGE) ''e1'' = Some (sampleEntry ''e1'' STAGE_CHANGE)
       \<and> (AuditEntry.action (sampleEntry ''e1'' STAGE_CHANGE) = STAGE_CHANGE
            \<or> AuditEntry.action (sampleEntry ''e1'' STAGE_CHANGE) = DISPOSITION_SET)
       \<and> entries (sampleAuditState ?cfg STAGE_CHANGE) ''r1'' = None"
    by (simp add: sampleAuditState_entries sampleEntry_def)
  have c: "restoredValue (fst (rollback ?cfg 2000 ''r1'' True ''e1'' ''alice'' (sampleAuditState ?cfg STAGE_CHANGE)))
             = AuditEntry.previousValue (sampleEntry ''e1'' STAGE_CHANGE)
         \<and> dom (entries (snd (rollback ?cfg 2000 ''r1'' True ''e1'' ''alice'' (sampleAuditState ?cfg STAGE_CHANGE))))
             = insert ''r1'' (dom (entries (sampleAuditState ?cfg STAGE_CHANGE)))"
    using th [of "sampleAuditState ?cfg STAGE_CHANGE" "''e1''"] c0 by blast
  show ?thesis
    using en a b c by (simp add: sampleAuditState_entries sampleEntry_def)
qed

text \<open>
  \<open>rollback\<close> first tests \<open>enableRollback\<close>. With rollback disabled the rollback of the
  \<open>STAGE_CHANGE\<close> entry \<open>e1\<close> fails and stores nothing, and the rollback of an unknown id
  fails with the message for a disabled rollback, not with the not-found message.
\<close>

theorem rollback_disabled_counterexample:
  "entries (sampleAuditState (AuditService_config None (Some False) None None) STAGE_CHANGE) ''e1''
     = Some (sampleEntry ''e1'' STAGE_CHANGE)
   \<and> rollback (AuditService_config None (Some False) None None) 2000 ''r1'' True ''e1'' ''alice''
        (sampleAuditState (AuditService_config None (Some False) None None) STAGE_CHANGE)
     = (\<lparr>success = False, auditId = [], originalAuditId = ''e1'',
         message = ''Rollback is disabled in configuration'',
         RollbackResult.previousValue = None, restoredValue = None\<rparr>,
        sampleAuditState (AuditService_config None (Some False) None None) STAGE_CHANGE)
   \<and> message (fst (rollback (AuditService_config None (Some False) None None) 2000 ''r1'' True ''nope'' ''alice''
        (sampleAuditState (AuditService_config None (Some False) None None) STAGE_CHANGE)))
     = ''Rollback is disabled in configuration''"
  by (simp add: sampleAuditState_entries rollback_def AuditService_config_def)

text \<open>
  Claim C10. With \<open>enableRollback\<close> false, \<open>rollback\<close> returns a failure for every id,
  whatever the store holds under it, and leaves the store, both indexes and the log file
  unchanged.
\<close>

theorem rollback_disabled:
  assumes "\<not> enableRollback cfg"
  shows "rollback cfg now newId ok a actor st =
           (\<lparr>success = False, auditId = [], originalAuditId = a,
             message = ''Rollback is disabled in configuration'',
             RollbackResult.previousValue = None, restoredValue = None\<rparr>, st)
       \<and> \<not> success (fst (rollback cfg now newId ok a actor st))
       \<and> entries (snd (rollback cfg now newId ok a actor st)) = entries st
       \<and> entriesByCallId (snd (rollback cfg now newId ok a actor st)) = entriesByCallId st
       \<and> entriesByProspectId (snd (rollback cfg now newId ok a actor st)) = entriesByProspectId st
       \<and> fileLines (snd (rollback cfg now newId ok a actor st)) = fileLines st"
  using assms by (simp add: rollback_def)

theorem rollback_disabled_witness:
  "\<not> enableRollback (AuditService_config (Some 30) (Some False) (Some True) (Some ''audit.log''))
   \<and> AuditEntry.action (the (entries (sampleAuditState
         (AuditService_config (Some 30) (Some False) (Some True) (Some ''audit.log'')) DISPOSITION_SET) ''e1''))
       = DISPOSITION_SET
   \<and> \<not> success (fst (rollback (AuditService_config (Some 30) (Some False) (Some True) (Some ''audit.log''))
        5000 ''r9'' True ''e1'' ''bob''
        (sampleAuditState (AuditService_config (Some 30) (Some False) (Some True) (Some ''audit.log'')) DISPOSITION_SET)))
   \<and> snd (rollback (AuditService_config (Some 30) (Some False) (Some True) (Some ''audit.log''))
        5000 ''r9'' True ''e1'' ''bob''
        (sampleAuditState (AuditService_config (Some 30) (Some False) (Some True) (Some ''audit.log'')) DISPOSITION_SET))
       = sampleAuditState (AuditService_config (Some 30) (Some False) (Some True) (Some ''audit.log'')) DISPOSITION_SET"
proof -
  let ?cfg = "AuditService_config (Some 30) (Some False) (Some True) (Some ''audit.log'')"
  have off: "\<not> enableRollback ?cfg" by (simp add: AuditService_config_def)
  have e: "AuditEntry.action (the (entries (sampleAuditState ?cfg DISPOSITION_SET) ''e1'')) = DISPOSITION_SET"
    by (simp add: sampleAuditState_entries sampleEntry_def)
  show ?thesis
    using off e rollback_disabled [OF off, of 5000 "''r9''" True "''e1''" "''bob''" "sampleAuditState ?cfg DISPOSITION_SET"]
    by simp
qed

section \<open>Properties of the alert service\<close>

lemma generateAlert_not_stalled:
  "\<not> isStalled status \<Longrightarrow> generateAlert cfg now newId status st = (None, st)"
  by (simp add: generateAlert_def)

lemma recentUnacked_active:
  "list_ex (\<lambda>alertId.
              case alerts st alertId of
                None \<Rightarrow> False
              | Some alert \<Rightarrow>
                  (let hoursSinceCreated = hoursBetween now (createdAt alert)
                   in \<not> acknowledged alert
                      \<and> hoursSinceCreated < AlertServiceConfig.alertWithinHours cfg))
           (case alertsByDeal st d of Some l \<Rightarrow> l | None \<Rightarrow> [])
   = (\<exists>alertId \<in> set (dealAlertIds st d). activeAlert cfg now st alertId)"
  by (auto simp: list_ex_iff dealAlertIds_def activeAlert_def Let_def split: option.splits)

lemma generateAlert_suppressed:
  assumes "isStalled status"
    and "\<exists>alertId \<in> set (dealAlertIds st (StallStatus.dealId status)). activeAlert cfg now st alertId"
  shows "generateAlert cfg now newId status st = (None, st)"
  using assms
  by (simp add: generateAlert_def Let_def recentUnacked_active)

lemma generateAlert_created:
  assumes "isStalled status"
    and "\<not> (\<exists>alertId \<in> set (dealAlertIds st (StallStatus.dealId status)). activeAlert cfg now st alertId)"
  shows "\<exists>alert. generateAlert cfg now newId status st =
           (Some alert,
            st\<lparr>alerts := (alerts st)(newId \<mapsto> alert),
               alertsByDeal := (alertsByDeal st)(StallStatus.dealId status \<mapsto>
                                  dealAlertIds st (StallStatus.dealId status) @ [newId])\<rparr>)
         \<and> id_alert alert = newId
         \<and> StallAlert.dealId alert = StallStatus.dealId status
         \<and> \<not> acknowledged alert
         \<and> createdAt alert = now
         \<and> StallAlert.priority alert = mapSeverityToPriority (severity status)"
  using assms
  by (simp add: generateAlert_def Let_def recentUnacked_active) (simp add: dealAlertIds_def)

lemma acknowledgeAlert_state:
  "alertsByDeal (snd (acknowledgeAlert t alertId who st)) = alertsByDeal st
   \<and> (\<forall>k. k \<noteq> alertId \<longrightarrow> alerts (snd (acknowledgeAlert t alertId who st)) k = alerts st k)
   \<and> (case alerts (snd (acknowledgeAlert t alertId who st)) alertId of
         None \<Rightarrow> alerts st alertId = None
       | Some a \<Rightarrow> acknowledged a)"
  by (simp add: acknowledgeAlert_def Let_def split: option.splits)

lemma activeAlert_earlier:
  "now \<le> now' \<Longrightarrow> activeAlert cfg now' st k \<Longrightarrow> activeAlert cfg now st k"
proof -
  assume le: "now \<le> now'" and act: "activeAlert cfg now' st k"
  from act obtain a where a: "alerts st k = Some a" "\<not> acknowledged a"
      "hoursBetween now' (createdAt a) < AlertServiceConfig.alertWithinHours cfg"
    by (auto simp: activeAlert_def split: option.splits)
  have "hoursBetween now (createdAt a) \<le> hoursBetween now' (createdAt a)"
    using le by (simp add: hoursBetween_def divide_right_mono)
  with a show ?thesis by (simp add: activeAlert_def)
qed

lemma only_active:
  assumes "atMostOneActive cfg now st d" "k \<in> set (dealAlertIds st d)" "activeAlert cfg now st k"
    "k' \<in> set (dealAlertIds st d)" "activeAlert cfg now st k'"
  shows "k' = k"
proof -
  let ?f = "filter (activeAlert cfg now st) (dealAlertIds st d)"
  have "k \<in> set ?f" "k' \<in> set ?f" using assms by simp_all
  moreover have "length ?f \<le> 1" using assms(1) by (simp add: atMostOneActive_def)
  ultimately show ?thesis
    by (cases ?f) (auto split: if_splits)
qed

lemma after_ack_none_active:
  assumes one: "atMostOneActive cfg now st d"
    and k: "k \<in> set (dealAlertIds st d)" "activeAlert cfg now st k"
    and le: "now \<le> now'"
  shows "\<not> (\<exists>k' \<in> set (dealAlertIds (snd (acknowledgeAlert t k who st)) d).
             activeAlert cfg now' (snd (acknowledgeAlert t k who st)) k')"
proof
  let ?st1 = "snd (acknowledgeAlert t k who st)"
  assume "\<exists>k' \<in> set (dealAlertIds ?st1 d). activeAlert cfg now' ?st1 k'"
  then obtain k' where k': "k' \<in> set (dealAlertIds ?st1 d)" "activeAlert cfg now' ?st1 k'"
    by blast
  have ids: "dealAlertIds ?st1 d = dealAlertIds st d"
    using acknowledgeAlert_state [of t k who st] by (simp add: dealAlertIds_def)
  show False
  proof (cases "k' = k")
    case True
    have "case alerts ?st1 k of None \<Rightarrow> alerts st k = None | Some a \<Rightarrow> acknowledged a"
      using acknowledgeAlert_state [of t k who st] by blast
    with k'(2) True show False
      by (auto simp: activeAlert_def split: option.splits)
  next
    case False
    then have "alerts ?st1 k' = alerts st k'"
      using acknowledgeAlert_state [of t k who st] by blast
    with k'(2) have "activeAlert cfg now' st k'"
      by (simp add: activeAlert_def)
    then have "activeAlert cfg now st k'"
      using activeAlert_earlier [OF le] by blast
    with only_active [OF one k] k'(1) ids have "k' = k" by simp
    with False show False by contradiction
  qed
qed

text \<open>
  Claim C6. \<open>generateAlert\<close> returns no alert and leaves the state unchanged when the
  status is not stalled, and when the deal has an alert that is unacknowledged and younger
  than the alert window. When that alert is the only such alert of the deal (the invariant
  of the store) and has been acknowledged with \<open>acknowledgeAlert\<close>, a \<open>generateAlert\<close>
  for a stalled status of the same deal at any time from then on returns a new
  unacknowledged alert, stores it under the fresh id and lists it for the deal, and the
  deal again has at most one active alert.
\<close>

theorem generateAlert_suppression:
  "(\<not> isStalled status \<longrightarrow> generateAlert cfg now newId status st = (None, st))
   \<and> (isStalled status
        \<and> (\<exists>k \<in> set (dealAlertIds st (StallStatus.dealId status)). activeAlert cfg now st k)
       \<longrightarrow> generateAlert cfg now newId status st = (None, st))
   \<and> (isStalled status
        \<and> k \<in> set (dealAlertIds st (StallStatus.dealId status))
        \<and> activeAlert cfg now st k
        \<and> atMostOneActive cfg now st (StallStatus.dealId status)
        \<and> now \<le> now'
        \<and> alerts st newId = None
        \<and> newId \<notin> set (dealAlertIds st (StallStatus.dealId status))
       \<longrightarrow> (\<exists>alert.
             fst (generateAlert cfg now' newId status (snd (acknowledgeAlert t k who st))) = Some alert
             \<and> id_alert alert = newId
             \<and> StallAlert.dealId alert = StallStatus.dealId status
             \<and> \<not> acknowledged alert
             \<and> createdAt alert = now'
             \<and> alerts (snd (generateAlert cfg now' newId status (snd (acknowledgeAlert t k who st))))
                 = (alerts (snd (acknowledgeAlert t k who st)))(newId \<mapsto> alert)
             \<and> dealAlertIds (snd (generateAlert cfg now' newId status (snd (acknowledgeAlert t k who st))))
                   (StallStatus.dealId status)
                 = dealAlertIds st (StallStatus.dealId status) @ [newId]
             \<and> atMostOneActive cfg now'
                  (snd (generateAlert cfg now' newId status (snd (acknowledgeAlert t k who st))))
                  (StallStatus.dealId status)))"
proof -
  let ?d = "StallStatus.dealId status"
  let ?st1 = "snd (acknowledgeAlert t k who st)"
  let ?r = "generateAlert cfg now' newId status ?st1"
  have third: "\<exists>alert.
             fst ?r = Some alert
             \<and> id_alert alert = newId
             \<and> StallAlert.dealId alert = ?d
             \<and> \<not> acknowledged alert
             \<and> createdAt alert = now'
             \<and> alerts (snd ?r) = (alerts ?st1)(newId \<mapsto> alert)
             \<and> dealAlertIds (snd ?r) ?d = dealAlertIds st ?d @ [newId]
             \<and> atMostOneActive cfg now' (snd ?r) ?d"
    if stalled: "isStalled status"
      and k: "k \<in> set (dealAlertIds st ?d)" "activeAlert cfg now st k"
      and one: "atMostOneActive cfg now st ?d"
      and le: "now \<le> now'"
      and fresh: "alerts st newId = None" "newId \<notin> set (dealAlertIds st ?d)"
  proof -
    have none: "\<not> (\<exists>k' \<in> set (dealAlertIds ?st1 ?d). activeAlert cfg now' ?st1 k')"
      using after_ack_none_active [OF one k le] .
    have ids: "dealAlertIds ?st1 ?d = dealAlertIds st ?d"
      using acknowledgeAlert_state [of t k who st] by (simp add: dealAlertIds_def)
    from generateAlert_created [OF stalled none, of newId]
    obtain alert where a: "?r =
           (Some alert,
            ?st1\<lparr>alerts := (alerts ?st1)(newId \<mapsto> alert),
               alertsByDeal := (alertsByDeal ?st1)(?d \<mapsto> dealAlertIds ?st1 ?d @ [newId])\<rparr>)"
      and props: "id_alert alert = newId" "StallAlert.dealId alert = ?d" "\<not> acknowledged alert"
        "createdAt alert = now'"
      by blast
    have al: "alerts (snd ?r) = (alerts ?st1)(newId \<mapsto> alert)"
      by (simp add: a)
    have di: "dealAlertIds (snd ?r) ?d = dealAlertIds st ?d @ [newId]"
      by (simp add: a dealAlertIds_def ids [unfolded dealAlertIds_def])
    have old: "\<not> activeAlert cfg now' (snd ?r) k'" if "k' \<in> set (dealAlertIds st ?d)" for k'
    proof -
      from that fresh(2) have "k' \<noteq> newId" by auto
      then have "alerts (snd ?r) k' = alerts ?st1 k'" by (simp add: al)
      moreover have "\<not> activeAlert cfg now' ?st1 k'"
        using none that ids by auto
      ultimately show ?thesis by (simp add: activeAlert_def)
    qed
    have "filter (activeAlert cfg now' (snd ?r)) (dealAlertIds st ?d) = []"
      using old by (simp add: filter_empty_conv)
    then have "length (filter (activeAlert cfg now' (snd ?r)) (dealAlertIds (snd ?r) ?d)) \<le> 1"
      by (simp add: di)
    then have inv: "atMostOneActive cfg now' (snd ?r) ?d"
      by (simp add: atMostOneActive_def)
    show ?thesis
      using a props al di inv by auto
  qed
  show ?thesis
    using generateAlert_not_stalled [of status cfg now newId st]
      generateAlert_suppressed [of status st cfg now newId] third
    by blast
qed

text \<open>
  The theorem on the store that holds one alert \<open>a1\<close> of the deal, generated at time
  1000: a status that is not stalled and a stalled status at time 2000 produce nothing;
  after \<open>a1\<close> is acknowledged at time 3000, the stalled status at time 4000 produces the
  alert \<open>a2\<close>.
\<close>

theorem generateAlert_suppression_witness:
  "generateAlert DEFAULT_ALERT_CONFIG 2000 ''a2'' (sampleStatus False) sampleAlertState
     = (None, sampleAlertState)
   \<and> generateAlert DEFAULT_ALERT_CONFIG 2000 ''a2'' (sampleStatus True) sampleAlertState
     = (None, sampleAlertState)
   \<and> map_option id_alert
        (fst (generateAlert DEFAULT_ALERT_CONFIG 4000 ''a2'' (sampleStatus True)
               (snd (acknowledgeAlert 3000 ''a1'' ''rita'' sampleAlertState))))
     = Some ''a2''
   \<and> dealAlertIds
        (snd (generateAlert DEFAULT_ALERT_CONFIG 4000 ''a2'' (sampleStatus True)
               (snd (acknowledgeAlert 3000 ''a1'' ''rita'' sampleAlertState)))) ''deal-1''
     = [''a1'', ''a2'']"
proof -
  let ?cfg = DEFAULT_ALERT_CONFIG
  let ?st = sampleAlertState
  have d: "StallStatus.dealId (sampleStatus b) = ''deal-1''" and s: "isStalled (sampleStatus b) = b" for b
    by (simp_all add: sampleStatus_def)
  have "\<not> (\<exists>k \<in> set (dealAlertIds emptyAlertState (StallStatus.dealId (sampleStatus True))).
              activeAlert ?cfg 1000 emptyAlertState k)"
    by (simp add: dealAlertIds_def emptyAlertState_def)
  from generateAlert_created [OF _ this, of "''a1''"] s [of True] d [of True]
  obtain a where g: "generateAlert ?cfg 1000 ''a1'' (sampleStatus True) emptyAlertState =
      (Some a, emptyAlertState\<lparr>alerts := (alerts emptyAlertState)(''a1'' \<mapsto> a),
                 alertsByDeal := (alertsByDeal emptyAlertState)(''deal-1'' \<mapsto>
                     dealAlertIds emptyAlertState ''deal-1'' @ [''a1''])\<rparr>)"
    and a: "\<not> acknowledged a" "createdAt a = 1000"
    by auto
  have st: "?st = emptyAlertState\<lparr>alerts := (alerts emptyAlertState)(''a1'' \<mapsto> a),
                 alertsByDeal := (alertsByDeal emptyAlertState)(''deal-1'' \<mapsto>
                     dealAlertIds emptyAlertState ''deal-1'' @ [''a1''])\<rparr>"
    by (simp only: sampleAlertState_def g snd_conv)
  have ids: "dealAlertIds ?st ''deal-1'' = [''a1'']"
    by (simp add: st dealAlertIds_def emptyAlertState_def)
  have al: "alerts ?st = [''a1'' \<mapsto> a]"
    by (simp add: st emptyAlertState_def)
  have act: "activeAlert ?cfg t ?st ''a1''" if "t = 1000 \<or> t = 2000" for t
    using that a by (auto simp: activeAlert_def al hoursBetween_def DEFAULT_ALERT_CONFIG_def)
  have one: "atMostOneActive ?cfg 2000 ?st ''deal-1''"
    by (simp add: atMostOneActive_def ids)
  have fresh: "alerts ?st ''a2'' = None" "''a2'' \<notin> set (dealAlertIds ?st ''deal-1'')"
    by (simp_all add: al ids)
  have ex: "\<exists>k \<in> set (dealAlertIds ?st ''deal-1''). activeAlert ?cfg 2000 ?st k"
    using act [of 2000] by (simp add: ids)
  have p1: "generateAlert ?cfg 2000 ''a2'' (sampleStatus False) ?st = (None, ?st)"
    using generateAlert_suppression [of "sampleStatus False" ?cfg 2000 "''a2''" ?st]
    by (simp add: s)
  have p2: "generateAlert ?cfg 2000 ''a2'' (sampleStatus True) ?st = (None, ?st)"
    using generateAlert_suppression [of "sampleStatus True" ?cfg 2000 "''a2''" ?st] ex
    by (simp add: s d)
  have "\<exists>alert.
             fst (generateAlert ?cfg 4000 ''a2'' (sampleStatus True) (snd (acknowledgeAlert 3000 ''a1'' ''rita'' ?st))) = Some alert
             \<and> id_alert alert = ''a2''
             \<and> dealAlertIds (snd (generateAlert ?cfg 4000 ''a2'' (sampleStatus True) (snd (acknowledgeAlert 3000 ''a1'' ''rita'' ?st))))
                   ''deal-1''
                 = dealAlertIds ?st ''deal-1'' @ [''a2'']"
    using generateAlert_suppression [of "sampleStatus True" ?cfg 2000 "''a2''" ?st "''a1''" 4000 3000 "''rita''"]
      act [of 2000] one fresh ids
    by (simp add: s d) blast
  then have p3: "map_option id_alert
        (fst (generateAlert ?cfg 4000 ''a2'' (sampleStatus True)
               (snd (acknowledgeAlert 3000 ''a1'' ''rita'' ?st)))) = Some ''a2''
     \<and> dealAlertIds
        (snd (generateAlert ?cfg 4000 ''a2'' (sampleStatus True)
               (snd (acknowledgeAlert 3000 ''a1'' ''rita'' ?st)))) ''deal-1''
     = [''a1'', ''a2'']"
    using ids by auto
  show ?thesis using p1 p2 p3 by simp
qed

text \<open>
  The invariant holds in the empty store and is kept by the passing of time, by an
  acknowledgement and by \<open>generateAlert\<close> with an id that no deal lists.
\<close>

lemma filter_length_mono:
  "(\<And>x. x \<in> set xs \<Longrightarrow> P' x \<Longrightarrow> P x) \<Longrightarrow> length (filter P' xs) \<le> length (filter P xs)"
  by (induction xs) auto

lemma atMostOneActive_empty: "atMostOneActive cfg now emptyAlertState d"
  by (simp add: atMostOneActive_def dealAlertIds_def emptyAlertState_def)

lemma atMostOneActive_later:
  assumes "now \<le> now'" "atMostOneActive cfg now st d"
  shows "atMostOneActive cfg now' st d"
proof -
  have "length (filter (activeAlert cfg now' st) (dealAlertIds st d))
          \<le> length (filter (activeAlert cfg now st) (dealAlertIds st d))"
    using activeAlert_earlier [OF assms(1)] by (intro filter_length_mono)
  with assms(2) show ?thesis by (simp add: atMostOneActive_def)
qed

lemma atMostOneActive_acknowledge:
  assumes "atMostOneActive cfg now st d"
  shows "atMostOneActive cfg now (snd (acknowledgeAlert t k who st)) d"
proof -
  let ?st1 = "snd (acknowledgeAlert t k who st)"
  have ids: "dealAlertIds ?st1 d = dealAlertIds st d"
    using acknowledgeAlert_state [of t k who st] by (simp add: dealAlertIds_def)
  have imp: "activeAlert cfg now st k'" if "activeAlert cfg now ?st1 k'" for k'
  proof (cases "k' = k")
    case True
    have "case alerts ?st1 k of None \<Rightarrow> alerts st k = None | Some a \<Rightarrow> acknowledged a"
      using acknowledgeAlert_state [of t k who st] by blast
    with that True show ?thesis by (auto simp: activeAlert_def split: option.splits)
  next
    case False
    then have "alerts ?st1 k' = alerts st k'"
      using acknowledgeAlert_state [of t k who st] by blast
    with that show ?thesis by (simp add: activeAlert_def)
  qed
  have "length (filter (activeAlert cfg now ?st1) (dealAlertIds st d))
          \<le> length (filter (activeAlert cfg now st) (dealAlertIds st d))"
    using imp by (intro filter_length_mono)
  with assms show ?thesis by (simp add: atMostOneActive_def ids)
qed

lemma atMostOneActive_generate:
  assumes inv: "atMostOneActive cfg now st d"
    and fresh: "\<forall>d'. newId \<notin> set (dealAlertIds st d')"
  shows "atMostOneActive cfg now (snd (generateAlert cfg now newId status st)) d"
proof -
  let ?e = "StallStatus.dealId status"
  let ?r = "generateAlert cfg now newId status st"
  let ?some = "\<exists>k \<in> set (dealAlertIds st ?e). activeAlert cfg now st k"
  show ?thesis
  proof (cases "isStalled status \<and> \<not> ?some")
    case False
    then have "?r = (None, st)"
      using generateAlert_not_stalled [of status cfg now newId st]
        generateAlert_suppressed [of status st cfg now newId] by blast
    with inv show ?thesis by simp
  next
    case True
    then obtain alert where a: "?r =
           (Some alert,
            st\<lparr>alerts := (alerts st)(newId \<mapsto> alert),
               alertsByDeal := (alertsByDeal st)(?e \<mapsto> dealAlertIds st ?e @ [newId])\<rparr>)"
      using generateAlert_created [of status st cfg now newId] by blast
    have same: "activeAlert cfg now (snd ?r) k = activeAlert cfg now st k"
      if "k \<in> set (dealAlertIds st d')" for k d'
    proof -
      from that fresh have "k \<noteq> newId" by auto
      then show ?thesis by (simp add: a activeAlert_def)
    qed
    show ?thesis
    proof (cases "d = ?e")
      case False
      then have ids: "dealAlertIds (snd ?r) d = dealAlertIds st d"
        by (simp add: a dealAlertIds_def)
      have "filter (activeAlert cfg now (snd ?r)) (dealAlertIds st d)
              = filter (activeAlert cfg now st) (dealAlertIds st d)"
        using same by (intro filter_cong) auto
      with inv show ?thesis by (simp add: atMostOneActive_def ids)
    next
      case d: True
      have ids: "dealAlertIds (snd ?r) d = dealAlertIds st d @ [newId]"
        by (simp add: a d dealAlertIds_def)
      have "filter (activeAlert cfg now (snd ?r)) (dealAlertIds st d) = []"
        using same True d by (auto simp: filter_empty_conv)
      then show ?thesis by (simp add: atMostOneActive_def ids)
    qed
  qed
qed

section \<open>Properties of the phrase detection\<close>

subsection \<open>The phrase loop ends\<close>

text \<open>
  Every pattern of \<open>STALL_PATTERNS\<close> matches only strings that are not empty, so the
  loop of \<open>detectPhrases\<close> ends for every text, no group of matches is empty, and
  \<open>analyzeEmail\<close> returns for every email.
\<close>

lemma matchAt_ge: "e \<in> set (matchAt r s i) \<Longrightarrow> i \<le> e"
proof (induction r arbitrary: i e)
  case (Seq a b)
  then obtain m where "m \<in> set (matchAt a s i)" "e \<in> set (matchAt b s m)" by auto
  with Seq.IH show ?case by (meson order_trans)
qed (auto simp: Let_def split: if_splits)

lemma matchAt_gt: "consumes r \<Longrightarrow> e \<in> set (matchAt r s i) \<Longrightarrow> i < e"
proof (induction r arbitrary: i e)
  case (Seq a b)
  from Seq.prems(2) obtain m where m: "m \<in> set (matchAt a s i)" "e \<in> set (matchAt b s m)" by auto
  from Seq.prems(1) have "consumes a \<or> consumes b" by simp
  then show ?case
  proof
    assume "consumes a"
    with Seq.IH(1) m(1) have "i < m" by blast
    with matchAt_ge [OF m(2)] show ?thesis by simp
  next
    assume "consumes b"
    with Seq.IH(2) m(2) have "m < e" by blast
    with matchAt_ge [OF m(1)] show ?thesis by simp
  qed
qed (auto simp: Let_def split: if_splits)

lemma firstMatch_end: "firstMatch r s cands = Some (i, e) \<Longrightarrow> e \<in> set (matchAt r s i)"
  by (induction cands) (auto split: list.splits)

lemma matchAll_returns: "consumes r \<Longrightarrow> \<exists>ms. matchAll r s lastIndex = Some ms"
proof (induction r s lastIndex rule: matchAll.induct)
  case (1 r s lastIndex)
  show ?case
  proof (cases "exec r s lastIndex")
    case None
    then show ?thesis by simp
  next
    case (Some x)
    obtain i e where x: "x = (i, e)" by (cases x)
    from Some x have "e \<in> set (matchAt r s i)"
      by (simp add: exec_def firstMatch_end)
    with "1.prems" have lt: "i < e" by (rule matchAt_gt)
    then have "\<not> e \<le> i" by simp
    from "1.IH" [OF Some x [symmetric] this "1.prems"]
    obtain ms where "matchAll r s e = Some ms" by blast
    with Some x lt show ?thesis by simp
  qed
qed

lemma collectMatches_returns:
  "list_all (\<lambda>p. consumes (pattern p)) pats \<Longrightarrow> \<exists>ms. collectMatches pats content = Some ms"
proof (induction pats)
  case Nil
  then show ?case by simp
next
  case (Cons p ps)
  then obtain ms where "matchAll (pattern p) content 0 = Some ms"
    using matchAll_returns [of "pattern p" content 0] by auto
  moreover from Cons obtain rest where "collectMatches ps content = Some rest" by auto
  ultimately show ?case by (simp add: patternMatches_def)
qed

lemma STALL_PATTERNS_consume: "list_all (\<lambda>p. consumes (pattern p)) STALL_PATTERNS"
  by (simp add: STALL_PATTERNS_def)

lemma detectPhrases_returns: "\<exists>ms. detectPhrases content = Some ms"
  using collectMatches_returns [OF STALL_PATTERNS_consume, of content]
  by (auto simp: detectPhrases_def detectPhrasesWith_def)

lemma addToGroup_nonempty:
  "list_all (\<lambda>g. snd g \<noteq> []) groups \<Longrightarrow> list_all (\<lambda>g. snd g \<noteq> []) (addToGroup m groups)"
  by (induction m groups rule: addToGroup.induct) auto

lemma groupMatchesByCategory_nonempty:
  "list_all (\<lambda>g. snd g \<noteq> []) (groupMatchesByCategory matches)"
proof -
  have "list_all (\<lambda>g. snd g \<noteq> []) groups \<Longrightarrow>
        list_all (\<lambda>g. snd g \<noteq> []) (foldl (\<lambda>groups m. addToGroup m groups) groups matches)"
    for groups
    by (induction matches arbitrary: groups) (simp_all add: addToGroup_nonempty)
  then show ?thesis by (simp add: groupMatchesByCategory_def)
qed

lemma emailSignals_returns:
  "list_all (\<lambda>g. snd g \<noteq> []) groups \<Longrightarrow>
   \<exists>sigs' st'. emailSignals cfg now uuid email' content k groups sigs st = Inr (sigs', st')
              \<and> length sigs' = length sigs + length groups"
proof (induction groups arbitrary: k sigs st)
  case Nil
  then show ?case by simp
next
  case (Cons g groups)
  obtain c ms where g: "g = (c, ms)" by (cases g)
  with Cons.prems obtain m rest where ms: "ms = m # rest" by (cases ms) auto
  have "\<exists>sg st2. emailSignals cfg now uuid email' content k (g # groups) sigs st
          = emailSignals cfg now uuid email' content (Suc k) groups (sigs @ [sg]) st2"
    by (simp add: g ms Let_def) blast
  then obtain sg st2 where step: "emailSignals cfg now uuid email' content k (g # groups) sigs st
          = emailSignals cfg now uuid email' content (Suc k) groups (sigs @ [sg]) st2"
    by blast
  from Cons.prems have "list_all (\<lambda>g. snd g \<noteq> []) groups" by simp
  from Cons.IH [OF this, of "Suc k" "sigs @ [sg]" st2] show ?case
    by (auto simp: step)
qed

lemma analyzeEmail_returns:
  "\<exists>sigs st'. analyzeEmail cfg now uuid email' st = Inr (sigs, st')"
proof -
  define content where "content = subject email' @ '' '' @ body email'"
  obtain ms where ms: "detectPhrases content = Some ms"
    using detectPhrases_returns by blast
  have a: "analyzeEmail cfg now uuid email' st =
     (if direction email' \<noteq> INBOUND then Inr ([], st)
      else if length ms = 0 then Inr ([], st)
      else emailSignals cfg now uuid email' content 0 (groupMatchesByCategory ms) [] st)"
    using ms by (simp add: analyzeEmail_def content_def Let_def)
  show ?thesis
    using emailSignals_returns [OF groupMatchesByCategory_nonempty, of cfg now uuid email' content 0 ms "[]" st]
    by (auto simp: a)
qed

subsection \<open>The scenario text\<close>

text \<open>The matches of the scenario text, by evaluation of \<open>detectPhrases\<close>.\<close>

lemma detectPhrases_scenario:
  "detectPhrases scenarioText =
     Some [\<lparr>phrase = ''let me think about it'',
            StallPhraseMatch.category = THINKING,
            matchedText = ''let me think about it'',
            StallPhraseMatch.confidence = 7 / 10,
            position = 0,
            context_text = ''let me think about it and I'll send you pricing next week''\<rparr>]"
  by code_simp

text \<open>
  Claim C8, amended. \<open>detectPhrases\<close> on the text
  \<open>let me think about it and I'll send you pricing next week\<close> yields exactly one
  match: the phrase \<open>let me think about it\<close> of category \<open>THINKING\<close>, at position 0 with
  confidence 0.7. No pattern of category \<open>PRICING_REQUEST\<close> or \<open>CALLBACK_REQUEST\<close>
  matches.
\<close>

theorem detectPhrases_scenario_one_match:
  "detectPhrases ''let me think about it and I'll send you pricing next week'' =
     Some [\<lparr>phrase = ''let me think about it'',
            StallPhraseMatch.category = THINKING,
            matchedText = ''let me think about it'',
            StallPhraseMatch.confidence = 7 / 10,
            position = 0,
            context_text = ''let me think about it and I'll send you pricing next week''\<rparr>]"
  using detectPhrases_scenario by (simp add: scenarioText_def)

text \<open>
  The categories of the matches of the scenario text are \<open>THINKING\<close> alone: there are
  not two matches, and none of category \<open>PRICING_REQUEST\<close> or \<open>CALLBACK_REQUEST\<close>. The
  pricing patterns allow only \<open>me\<close> and \<open>the\<close> between \<open>send\<close> and \<open>pricing\<close>, and
  the callback patterns ask for \<open>call back\<close>, \<open>reach out\<close>, \<open>follow up\<close> or
  \<open>get back to me\<close> before \<open>next week\<close>.
\<close>

theorem detectPhrases_scenario_counterexample:
  "map_option (map StallPhraseMatch.category)
     (detectPhrases ''let me think about it and I'll send you pricing next week'')
   = Some [THINKING]"
  using detectPhrases_scenario by (simp add: scenarioText_def)

subsection \<open>Emails that are not inbound\<close>

text \<open>
  Claim C9. For an email whose direction is not \<open>INBOUND\<close>, \<open>analyzeEmail\<close> returns the
  empty list of signals and leaves the store of signals unchanged, whatever the subject
  and body are.
\<close>

theorem analyzeEmail_not_inbound:
  assumes "direction email' \<noteq> INBOUND"
  shows "analyzeEmail cfg now uuid email' st = Inr ([], st)"
  using assms by (simp add: analyzeEmail_def)

text \<open>
  The theorem at an outbound email whose content holds a phrase of category \<open>THINKING\<close>.
\<close>

theorem analyzeEmail_not_inbound_witness:
  "direction (sampleEmail OUTBOUND) \<noteq> INBOUND
   \<and> map_option (map StallPhraseMatch.category)
        (detectPhrases (subject (sampleEmail OUTBOUND) @ '' '' @ body (sampleEmail OUTBOUND)))
       = Some [THINKING]
   \<and> analyzeEmail DEFAULT_CONFIG 1000 (\<lambda>k. ''id'') (sampleEmail OUTBOUND) emptyDetectorState
       = Inr ([], emptyDetectorState)"
proof -
  have d: "direction (sampleEmail OUTBOUND) \<noteq> INBOUND"
    by (simp add: sampleEmail_def)
  have m: "map_option (map StallPhraseMatch.category)
        (detectPhrases (subject (sampleEmail OUTBOUND) @ '' '' @ body (sampleEmail OUTBOUND)))
       = Some [THINKING]"
    by code_simp
  show ?thesis
    using d m analyzeEmail_not_inbound [OF d, of DEFAULT_CONFIG 1000 "\<lambda>k. ''id''" emptyDetectorState]
    by simp
qed

end
